theory Spec2Isabelle
  imports Complex_Main "HOL-Library.Multiset"
begin

section \<open>Python strings and lists\<close>

text \<open>
  A Python \<open>str\<close> is modelled as a \<open>string\<close>; a \<open>char\<close> stands for one code point in
  the range U+0000 to U+00FF, so \<open>length\<close> is Python's \<open>len\<close> on such text. Code points
  beyond U+00FF are outside the model.
\<close>

text \<open>\<open>str.isspace\<close> on one character: the code points below U+0100 that Python treats
  as whitespace in \<open>str.strip()\<close> and \<open>str.split()\<close>.\<close>

definition isspace :: "char \<Rightarrow> bool" where
  "isspace c = (c \<in> set [CHR 0x09, CHR 0x0A, CHR 0x0B, CHR 0x0C, CHR 0x0D,
                          CHR 0x1C, CHR 0x1D, CHR 0x1E, CHR 0x1F, CHR 0x20, CHR 0x85, CHR 0xA0])"

text \<open>\<open>s.strip()\<close>: leading and trailing whitespace removed.\<close>

definition str_strip :: "string \<Rightarrow> string" where
  "str_strip s = rev (dropWhile isspace (rev (dropWhile isspace s)))"

text \<open>\<open>text.split('\n\n')\<close>: the fields between the non-overlapping occurrences of two
  consecutive newlines, scanned from the left. The first argument is the field read so
  far. The result always has at least one field.\<close>

fun split_nn :: "string \<Rightarrow> string \<Rightarrow> string list" where
  "split_nn cur [] = [cur]"
| "split_nn cur (a # b # rest) =
     (if a = CHR 0x0A \<and> b = CHR 0x0A then cur # split_nn [] rest
      else split_nn (cur @ [a]) (b # rest))"
| "split_nn cur [a] = [cur @ [a]]"

definition str_split_nn :: "string \<Rightarrow> string list" where
  "str_split_nn s = split_nn [] s"

text \<open>\<open>s.split()\<close>: the maximal runs of non-whitespace characters, in order. The first
  argument is the word read so far.\<close>

fun split_ws :: "string \<Rightarrow> string \<Rightarrow> string list" where
  "split_ws cur [] = (if cur = [] then [] else [cur])"
| "split_ws cur (c # cs) =
     (if isspace c then (if cur = [] then split_ws [] cs else cur # split_ws [] cs)
      else split_ws (cur @ [c]) cs)"

definition str_split :: "string \<Rightarrow> string list" where
  "str_split s = split_ws [] s"

text \<open>\<open>sep.join(ws)\<close>.\<close>

fun str_join :: "string \<Rightarrow> string list \<Rightarrow> string" where
  "str_join sep [] = []"
| "str_join sep [w] = w"
| "str_join sep (w # v # ws) = w @ sep @ str_join sep (v # ws)"

text \<open>\<open>xs[i]\<close> for a Python integer \<open>i\<close>: a negative index counts from the end, an index
  out of range raises \<open>IndexError\<close> (here \<open>None\<close>).\<close>

definition py_getitem :: "'a list \<Rightarrow> int \<Rightarrow> 'a option" where
  "py_getitem xs i =
     (if 0 \<le> i \<and> i < int (length xs) then Some (xs ! nat i)
      else if - int (length xs) \<le> i \<and> i < 0 then Some (xs ! nat (int (length xs) + i))
      else None)"

section \<open>DocumentProcessor.process\_pdf\<close>

text \<open>
  The loop \<open>for i in range(0, len(words), 100)\<close> of \<open>process_pdf\<close>: the slice
  \<open>words[i:i + 100]\<close> is joined with single spaces and appended when it is not the empty
  string. The third argument is the list \<open>chunks\<close> built so far.
\<close>

function split_long :: "string list \<Rightarrow> nat \<Rightarrow> string list \<Rightarrow> string list" where
  "split_long ws i acc =
     (if i < length ws
      then (let chunk = str_join '' '' (take 100 (drop i ws))
            in split_long ws (i + 100) (if chunk \<noteq> [] then acc @ [chunk] else acc))
      else acc)"
  by pat_completeness auto
termination
  by (relation "measure (\<lambda>(ws, i, acc). length ws - i)") auto

declare split_long.simps [simp del]

text \<open>The body of \<open>for paragraph in paragraphs\<close>.\<close>

definition do_paragraph :: "string list \<Rightarrow> string \<Rightarrow> string list" where
  "do_paragraph acc paragraph =
     (if length paragraph > 512 then split_long (str_split paragraph) 0 acc
      else acc @ [paragraph])"

text \<open>The body of \<open>for page in pdf_reader.pages\<close>, on the text that
  \<open>page.extract_text()\<close> returned.\<close>

definition do_page :: "string list \<Rightarrow> string \<Rightarrow> string list" where
  "do_page acc s =
     (let paragraphs = [str_strip p. p \<leftarrow> str_split_nn s, str_strip p \<noteq> []]
      in foldl do_paragraph acc paragraphs)"

text \<open>\<open>process_pdf\<close>, on the list of the texts extracted from the pages of the file
  (opening the file and PyPDF2's text extraction are outside the model).\<close>

definition process_pdf :: "string list \<Rightarrow> string list" where
  "process_pdf pages = foldl do_page [] pages"

subsection \<open>The chunking policy in the specification's words\<close>

text \<open>Consecutive groups of \<open>n\<close> elements, the last one possibly shorter.\<close>

function word_groups :: "nat \<Rightarrow> 'a list \<Rightarrow> 'a list list" where
  "word_groups n ws =
     (if n = 0 \<or> ws = [] then [] else take n ws # word_groups n (drop n ws))"
  by pat_completeness auto
termination
  by (relation "measure (\<lambda>(n, ws). length ws)") auto

declare word_groups.simps [simp del]

text \<open>The paragraph-like units of a text: the fields between blank-line boundaries,
  trimmed, without the empty ones.\<close>

definition units :: "string \<Rightarrow> string list" where
  "units s = filter (\<lambda>u. u \<noteq> []) (map str_strip (str_split_nn s))"

text \<open>A unit of at most 512 characters is one chunk; a longer one is split on
  whitespace into groups of 100 words, each joined with single spaces.\<close>

definition chunk_unit :: "string \<Rightarrow> string list" where
  "chunk_unit u =
     (if length u \<le> 512 then [u]
      else map (str_join '' '') (word_groups 100 (str_split u)))"

definition chunker_spec :: "string \<Rightarrow> string list" where
  "chunker_spec s = concat (map chunk_unit (units s))"

section \<open>Errors and arrays\<close>

text \<open>The exceptions that the modelled code paths raise, by their Python class.
  \<open>AssertionError\<close> comes from the checks \<open>assert d == self.d\<close> and \<open>assert k > 0\<close> in
  the library's Python wrappers of \<open>add\<close> and \<open>search\<close>. \<open>ValueError\<close> and
  \<open>MemoryError\<close> are numpy's: a shape it refuses, and an array it cannot allocate.
  \<open>RuntimeError\<close> is what \<open>faiss.read_index\<close> raises; its message names the cause, which
  the model keeps: the file could not be opened for reading (\<open>No such file or directory\<close>), or what was read is not an index. \<open>DecodeError\<close> stands for what
  \<open>json.load\<close> raises on a file that is not JSON text (\<open>UnicodeDecodeError\<close> or
  \<open>json.JSONDecodeError\<close>, according to its bytes). \<open>GenerationError\<close> stands for any
  error of the Cohere client.\<close>

datatype faiss_failure = CouldNotOpen | NotAnIndex

datatype error =
    AssertionError
  | ValueError
  | MemoryError
  | IndexError
  | FileNotFoundError
  | RuntimeError faiss_failure
  | DecodeError
  | GenerationError

text \<open>A vector of the index. The components are \<open>float32\<close> values in the program;
  the model keeps each as the real number it stands for and does no arithmetic on
  them.\<close>

type_synonym vec = "real list"

text \<open>A numpy array of one dimension (shape \<open>(n,)\<close>) or of two (shape \<open>(n, d)\<close>, given
  as \<open>d\<close> and the \<open>n\<close> rows).\<close>

datatype ndarray = Array1 vec | Array2 nat "vec list"

text \<open>\<open>v.reshape(1, -1)\<close> on a one-dimensional array: one row, of the length of the
  array (an array of size 0 becomes one of shape \<open>(1, 0)\<close>).\<close>

definition reshape_row :: "vec \<Rightarrow> ndarray" where
  "reshape_row v = Array2 (length v) [v]"

text \<open>\<open>a[0]\<close> as \<open>query\<close> uses it, before \<open>reshape(1, -1)\<close>: the first row of a
  two-dimensional array; on a one-dimensional array the first component, which
  \<open>reshape(1, -1)\<close> turns into a row of length one.\<close>

definition first_row :: "ndarray \<Rightarrow> error + vec" where
  "first_row a =
     (case a of
        Array2 d [] \<Rightarrow> Inl IndexError
      | Array2 d (r # rs) \<Rightarrow> Inr r
      | Array1 [] \<Rightarrow> Inl IndexError
      | Array1 (x # xs) \<Rightarrow> Inr [x])"

section \<open>The library index faiss.IndexFlatL2\<close>

text \<open>
  The repository stores its vectors in an \<open>IndexFlatL2\<close> of the faiss library, whose code
  is not part of the repository. The model keeps what the repository's code relies on, as
  the library documents it. The index has a fixed dimension \<open>d\<close> and the list of the
  vectors added so far (\<open>ntotal\<close> is its length). \<open>add\<close> takes an array of shape
  \<open>(n, d)\<close> and appends its rows. \<open>search\<close> takes \<open>nq\<close> queries and a positive \<open>k\<close>,
  allocates two arrays of shape \<open>(nq, k)\<close> and fills them, for each query, from a result
  heap of \<open>k\<close> slots that starts with the distance \<open>FLT_MAX\<close> and the label \<open>-1\<close> in
  every slot: a stored vector enters the heap when its distance is below the largest
  distance in it, and the heap is read out by distance, then by label.

  Two things of the library and the machine are parameters of the model, since no
  definition can give them. The first is the distance kernel: the library computes the
  squared L2 distance in \<open>float32\<close>, with rounding and a summation order that depend on
  its build; \<open>fvec_L2sqr lib q y\<close> is the number it computes for a query and a stored
  vector, or \<open>None\<close> when the result is no number (an overflow to infinity, a NaN). The
  second is \<open>max_k lib\<close>, the largest \<open>k\<close> for which the machine has the memory of the two
  result arrays.
\<close>

record faiss_lib =
  fvec_L2sqr :: "vec \<Rightarrow> vec \<Rightarrow> real option"
  max_k :: nat

record IndexFlatL2 =
  faiss_d :: nat
  xb :: "vec list"

definition IndexFlatL2_init :: "nat \<Rightarrow> IndexFlatL2" where
  "IndexFlatL2_init n = \<lparr>faiss_d = n, xb = []\<rparr>"

definition ntotal :: "IndexFlatL2 \<Rightarrow> nat" where
  "ntotal ix = length (xb ix)"

text \<open>\<open>index.add(x)\<close>: \<open>n, d = x.shape\<close>, \<open>assert d == self.d\<close>, then the rows are
  appended.\<close>

definition faiss_add :: "IndexFlatL2 \<Rightarrow> ndarray \<Rightarrow> error + IndexFlatL2" where
  "faiss_add ix x =
     (case x of
        Array1 v \<Rightarrow> Inl ValueError
      | Array2 n rows \<Rightarrow>
          if n = faiss_d ix then Inr (ix\<lparr>xb := xb ix @ rows\<rparr>) else Inl AssertionError)"

definition FLT_MAX :: real where
  "FLT_MAX = 340282346638528859811704183484516925440"

text \<open>A stored vector can enter the result heap: its computed distance is a number below
  \<open>FLT_MAX\<close>.\<close>

definition usable :: "faiss_lib \<Rightarrow> vec \<Rightarrow> vec \<Rightarrow> bool" where
  "usable lib q y = (case fvec_L2sqr lib q y of None \<Rightarrow> False | Some dv \<Rightarrow> dv < FLT_MAX)"

definition usable_count :: "faiss_lib \<Rightarrow> vec list \<Rightarrow> vec \<Rightarrow> nat" where
  "usable_count lib ys q = length (filter (usable lib q) ys)"

text \<open>The scan of the stored vectors from position \<open>i\<close> on: the computed distance and the
  label (position) of each vector that can enter the heap.\<close>

fun scan :: "faiss_lib \<Rightarrow> vec \<Rightarrow> vec list \<Rightarrow> nat \<Rightarrow> (real \<times> int) list" where
  "scan lib q [] i = []"
| "scan lib q (y # ys) i =
     (case fvec_L2sqr lib q y of
        None \<Rightarrow> scan lib q ys (Suc i)
      | Some dv \<Rightarrow>
          if dv < FLT_MAX then (dv, int i) # scan lib q ys (Suc i)
          else scan lib q ys (Suc i))"

definition scored :: "faiss_lib \<Rightarrow> vec list \<Rightarrow> vec \<Rightarrow> (real \<times> int) list" where
  "scored lib ys q = scan lib q ys 0"

text \<open>The \<open>k\<close> result slots for one query: distance and label, nearest first, then the
  slots that no stored vector entered.\<close>

definition knn :: "faiss_lib \<Rightarrow> vec list \<Rightarrow> vec \<Rightarrow> nat \<Rightarrow> (real \<times> int) list" where
  "knn lib ys q k =
     (let ranked = take k (sort_key fst (scored lib ys q))
      in ranked @ replicate (k - length ranked) (FLT_MAX, - 1))"

text \<open>The order of the result slots: by distance, then by label.\<close>

definition ranks_before :: "real \<times> int \<Rightarrow> real \<times> int \<Rightarrow> bool" where
  "ranks_before a b = (fst a < fst b \<or> (fst a = fst b \<and> snd a < snd b))"

text \<open>\<open>index.search(x, k)\<close>: \<open>n, d = x.shape\<close>, \<open>assert d == self.d\<close>,
  \<open>assert k > 0\<close>, then \<open>np.empty((n, k), dtype=np.float32)\<close> and the same for the labels,
  then the search. numpy refuses the shape with \<open>ValueError\<close> when the \<open>4 * k\<close> bytes of a
  row do not fit a signed 64-bit size, and raises \<open>MemoryError\<close> when the machine cannot
  allocate the arrays.\<close>

definition faiss_search ::
  "faiss_lib \<Rightarrow> IndexFlatL2 \<Rightarrow> ndarray \<Rightarrow> int \<Rightarrow> error + (real list list \<times> int list list)" where
  "faiss_search lib ix x k =
     (case x of
        Array1 v \<Rightarrow> Inl ValueError
      | Array2 n qs \<Rightarrow>
          if n \<noteq> faiss_d ix then Inl AssertionError
          else if k \<le> 0 then Inl AssertionError
          else if 2 ^ 61 \<le> k then Inl ValueError
          else if int (max_k lib) < k then Inl MemoryError
          else (let res = map (\<lambda>q. knn lib (xb ix) q (nat k)) qs
                in Inr (map (map fst) res, map (map snd) res)))"

text \<open>The library where its arithmetic is exact: on vectors whose components are small
  integers every difference, square and partial sum is an integer below \<open>2 ^ 24\<close>, which
  \<open>float32\<close> represents exactly in any order of summation. The examples below use it, on
  a machine that has the memory for results of a thousand slots.\<close>

definition exact_L2sqr :: "vec \<Rightarrow> vec \<Rightarrow> real option" where
  "exact_L2sqr x y = Some (sum_list (map (\<lambda>(a, b). (a - b) * (a - b)) (zip x y)))"

definition exact_lib :: faiss_lib where
  "exact_lib = \<lparr>fvec_L2sqr = exact_L2sqr, max_k = 1000\<rparr>"

section \<open>The file system\<close>

text \<open>
  A file holds what was last written to it: an index written by \<open>faiss.write_index\<close> or
  a list of strings written by \<open>json.dump\<close>. Both serialisations are taken to be
  lossless. Directories, permissions and write failures are outside the model.
  \<open>os.remove\<close> raises \<open>FileNotFoundError\<close> on a path that does not exist.
\<close>

type_synonym path = string

datatype file_content = IndexBlob IndexFlatL2 | JsonList "string list"

type_synonym fs = "path \<rightharpoonup> file_content"

definition faiss_write_index :: "IndexFlatL2 \<Rightarrow> path \<Rightarrow> fs \<Rightarrow> fs" where
  "faiss_write_index ix p files = files(p \<mapsto> IndexBlob ix)"

definition faiss_read_index :: "fs \<Rightarrow> path \<Rightarrow> error + IndexFlatL2" where
  "faiss_read_index files p =
     (case files p of
        None \<Rightarrow> Inl (RuntimeError CouldNotOpen)
      | Some (IndexBlob ix) \<Rightarrow> Inr ix
      | Some (JsonList cs) \<Rightarrow> Inl (RuntimeError NotAnIndex))"

text \<open>\<open>with open(p, 'w') as f: json.dump(cs, f)\<close>.\<close>

definition json_dump_file :: "string list \<Rightarrow> path \<Rightarrow> fs \<Rightarrow> fs" where
  "json_dump_file cs p files = files(p \<mapsto> JsonList cs)"

text \<open>\<open>with open(p, 'r') as f: json.load(f)\<close>.\<close>

definition json_load_file :: "fs \<Rightarrow> path \<Rightarrow> error + string list" where
  "json_load_file files p =
     (case files p of
        None \<Rightarrow> Inl FileNotFoundError
      | Some (JsonList cs) \<Rightarrow> Inr cs
      | Some (IndexBlob ix) \<Rightarrow> Inl DecodeError)"

definition path_exists :: "fs \<Rightarrow> path \<Rightarrow> bool" where
  "path_exists files p = (files p \<noteq> None)"

definition os_remove :: "path \<Rightarrow> fs \<Rightarrow> error + fs" where
  "os_remove p files =
     (case files p of
        None \<Rightarrow> Inl FileNotFoundError
      | Some f \<Rightarrow> Inr (files(p := None)))"

section \<open>FAISSIndex\<close>

text \<open>
  Every method takes the object and returns its result (or the exception raised)
  together with the object as the call leaves it, also when the call raises. A method
  that searches takes the library parameter first.
\<close>

record FAISSIndex =
  dimension :: nat
  index :: IndexFlatL2
  chunks :: "string list"

definition FAISSIndex_init :: "nat \<Rightarrow> FAISSIndex" where
  "FAISSIndex_init n = \<lparr>dimension = n, index = IndexFlatL2_init n, chunks = []\<rparr>"

definition add_vectors ::
  "FAISSIndex \<Rightarrow> ndarray \<Rightarrow> string list \<Rightarrow> (error + unit) \<times> FAISSIndex" where
  "add_vectors self vectors cs =
     (case faiss_add (index self) vectors of
        Inl e \<Rightarrow> (Inl e, self)
      | Inr ix \<Rightarrow> (Inr (), self\<lparr>index := ix, chunks := chunks self @ cs\<rparr>))"

definition search ::
  "faiss_lib \<Rightarrow> FAISSIndex \<Rightarrow> vec \<Rightarrow> int \<Rightarrow>
     (error + (real list list \<times> int list list)) \<times> FAISSIndex" where
  "search lib self query_vector k =
     (faiss_search lib (index self) (reshape_row query_vector) k, self)"

definition save ::
  "FAISSIndex \<Rightarrow> path \<Rightarrow> path \<Rightarrow> fs \<Rightarrow> (error + unit) \<times> FAISSIndex \<times> fs" where
  "save self p_index p_chunks files =
     (let files1 = faiss_write_index (index self) p_index files;
          files2 = json_dump_file (chunks self) p_chunks files1
      in (Inr (), self, files2))"

definition load ::
  "FAISSIndex \<Rightarrow> path \<Rightarrow> path \<Rightarrow> fs \<Rightarrow> (error + unit) \<times> FAISSIndex" where
  "load self p_index p_chunks files =
     (case faiss_read_index files p_index of
        Inl e \<Rightarrow> (Inl e, self)
      | Inr ix \<Rightarrow>
          (let self1 = self\<lparr>index := ix\<rparr>
           in case json_load_file files p_chunks of
                Inl e \<Rightarrow> (Inl e, self1)
              | Inr cs \<Rightarrow> (Inr (), self1\<lparr>chunks := cs\<rparr>)))"

text \<open>The invariant of the index, and its entries by position.\<close>

definition aligned :: "FAISSIndex \<Rightarrow> bool" where
  "aligned self = (ntotal (index self) = length (chunks self))"

definition entries :: "FAISSIndex \<Rightarrow> (vec \<times> string) list" where
  "entries self = zip (xb (index self)) (chunks self)"

text \<open>The operations that change an index, and a run of them over a file system; the
  spec's \<open>clear\<close> is the construction of a new \<open>FAISSIndex()\<close>, as \<open>clear_index\<close> does
  it. \<open>apply_op\<close> gives the index as the call leaves it.\<close>

datatype index_op = Add ndarray "string list" | Load path path | Clear

fun apply_op :: "fs \<Rightarrow> FAISSIndex \<Rightarrow> index_op \<Rightarrow> FAISSIndex" where
  "apply_op files self (Add vectors cs) = snd (add_vectors self vectors cs)"
| "apply_op files self (Load p_index p_chunks) = snd (load self p_index p_chunks files)"
| "apply_op files self Clear = FAISSIndex_init 384"

definition run_ops :: "fs \<Rightarrow> FAISSIndex \<Rightarrow> index_op list \<Rightarrow> FAISSIndex" where
  "run_ops files self ops = foldl (apply_op files) self ops"

text \<open>The calls that keep the invariant: an \<open>add\<close> of as many vectors as chunks, and a
  \<open>load\<close> that either fails on the index file or reads an index and a chunk list of the
  same length.\<close>

fun op_ok :: "fs \<Rightarrow> index_op \<Rightarrow> bool" where
  "op_ok files (Add (Array1 v) cs) = True"
| "op_ok files (Add (Array2 n rows) cs) = (length rows = length cs)"
| "op_ok files (Load p_index p_chunks) =
     (case faiss_read_index files p_index of
        Inl e \<Rightarrow> True
      | Inr ix \<Rightarrow>
          (case json_load_file files p_chunks of
             Inl e \<Rightarrow> False
           | Inr cs \<Rightarrow> ntotal ix = length cs))"
| "op_ok files Clear = True"

section \<open>RAGModel\<close>

record query_result =
  answer :: string
  contexts :: "string list"
  distances :: "real list"

text \<open>The document processor holds the sentence encoder: \<open>encoder.encode(texts)\<close> gives
  an array with one row per text.\<close>

record DocumentProcessor =
  encoder :: "string list \<Rightarrow> ndarray"

definition create_embeddings :: "DocumentProcessor \<Rightarrow> string list \<Rightarrow> ndarray" where
  "create_embeddings self cs = encoder self cs"

text \<open>The object: its index (the attribute \<open>index\<close> of the source, here \<open>rag_index\<close>), the
  Cohere client (the text of the first generation for a prompt, or an error), the
  document processor and the two paths.\<close>

record RAGModel =
  rag_index :: FAISSIndex
  co :: "string \<Rightarrow> error + string"
  doc_processor :: DocumentProcessor
  index_file :: path
  chunks_file :: path

text \<open>\<open>RAGModel(cohere_api_key)\<close>, given the client and the encoder it creates, on the
  files found at start (the directory \<open>data\<close> itself is not modelled).\<close>

definition RAGModel_init ::
  "(string \<Rightarrow> error + string) \<Rightarrow> (string list \<Rightarrow> ndarray) \<Rightarrow> fs \<Rightarrow> (error + unit) \<times> RAGModel" where
  "RAGModel_init client enc files =
     (let self = \<lparr>rag_index = FAISSIndex_init 384, co = client,
                  doc_processor = \<lparr>encoder = enc\<rparr>,
                  index_file = ''data/faiss.index'', chunks_file = ''data/chunks.json''\<rparr>
      in if path_exists files (index_file self) \<and> path_exists files (chunks_file self)
         then (case load (rag_index self) (index_file self) (chunks_file self) files of
                 (r, ix) \<Rightarrow> (r, self\<lparr>rag_index := ix\<rparr>))
         else (Inr (), self))"

text \<open>\<open>index_document\<close>, on the page texts of the document at \<open>pdf_path\<close>.\<close>

definition index_document ::
  "RAGModel \<Rightarrow> string list \<Rightarrow> fs \<Rightarrow> (error + int) \<times> RAGModel \<times> fs" where
  "index_document self pages files =
     (let cs = process_pdf pages;
          embeddings = create_embeddings (doc_processor self) cs
      in case add_vectors (rag_index self) embeddings cs of
           (Inl e, ix) \<Rightarrow> (Inl e, self\<lparr>rag_index := ix\<rparr>, files)
         | (Inr u, ix) \<Rightarrow>
             (case save ix (index_file self) (chunks_file self) files of
                (Inl e, ix', files') \<Rightarrow> (Inl e, self\<lparr>rag_index := ix'\<rparr>, files')
              | (Inr u', ix', files') \<Rightarrow>
                  (Inr (int (length cs)), self\<lparr>rag_index := ix'\<rparr>, files')))"

text \<open>\<open>[self.index.chunks[idx] for idx in indices[0]]\<close>.\<close>

fun get_contexts :: "string list \<Rightarrow> int list \<Rightarrow> error + string list" where
  "get_contexts cs [] = Inr []"
| "get_contexts cs (idx # rest) =
     (case py_getitem cs idx of
        None \<Rightarrow> Inl IndexError
      | Some c \<Rightarrow> (case get_contexts cs rest of Inl e \<Rightarrow> Inl e | Inr r \<Rightarrow> Inr (c # r)))"

definition build_prompt :: "string list \<Rightarrow> string \<Rightarrow> string" where
  "build_prompt ctxs question =
     ''Based on the following contexts, answer the question.'' @ [CHR 0x0A] @
     ''        '' @ [CHR 0x0A] @
     ''Contexts:'' @ [CHR 0x0A] @
     str_join '' '' ctxs @ [CHR 0x0A, CHR 0x0A] @
     ''Question: '' @ question @ [CHR 0x0A, CHR 0x0A] @
     ''Answer:''"

definition query ::
  "faiss_lib \<Rightarrow> RAGModel \<Rightarrow> string \<Rightarrow> int \<Rightarrow> (error + query_result) \<times> RAGModel" where
  "query lib self question top_k =
     (case first_row (encoder (doc_processor self) [question]) of
        Inl e \<Rightarrow> (Inl e, self)
      | Inr query_embedding \<Rightarrow>
          (case search lib (rag_index self) query_embedding top_k of
             (Inl e, ix) \<Rightarrow> (Inl e, self\<lparr>rag_index := ix\<rparr>)
           | (Inr (ds, indices), ix) \<Rightarrow>
               (let self1 = self\<lparr>rag_index := ix\<rparr>
                in case py_getitem indices 0 of
                     None \<Rightarrow> (Inl IndexError, self1)
                   | Some row \<Rightarrow>
                       (case get_contexts (chunks (rag_index self1)) row of
                          Inl e \<Rightarrow> (Inl e, self1)
                        | Inr ctxs \<Rightarrow>
                            (case co self1 (build_prompt ctxs question) of
                               Inl e \<Rightarrow> (Inl e, self1)
                             | Inr generated \<Rightarrow>
                                 (case py_getitem ds 0 of
                                    None \<Rightarrow> (Inl IndexError, self1)
                                  | Some drow \<Rightarrow>
                                      (Inr \<lparr>answer = str_strip generated, contexts = ctxs,
                                            distances = drow\<rparr>, self1)))))))"

definition clear_index :: "RAGModel \<Rightarrow> fs \<Rightarrow> (error + unit) \<times> RAGModel \<times> fs" where
  "clear_index self files =
     (let self1 = self\<lparr>rag_index := FAISSIndex_init 384\<rparr>
      in case (if path_exists files (index_file self1)
               then os_remove (index_file self1) files else Inr files) of
           Inl e \<Rightarrow> (Inl e, self1, files)
         | Inr files1 \<Rightarrow>
             (case (if path_exists files1 (chunks_file self1)
                    then os_remove (chunks_file self1) files1 else Inr files1) of
                Inl e \<Rightarrow> (Inl e, self1, files1)
              | Inr files2 \<Rightarrow> (Inr (), self1, files2)))"

section \<open>The chunker\<close>

lemma str_join_nonempty: "ws \<noteq> [] \<Longrightarrow> hd ws \<noteq> [] \<Longrightarrow> str_join sep ws \<noteq> []"
  by (induction sep ws rule: str_join.induct) auto

lemma split_ws_nonempty: "w \<in> set (split_ws cur s) \<Longrightarrow> w \<noteq> []"
  by (induction s arbitrary: cur) (auto split: if_splits)

lemma str_split_nonempty: "w \<in> set (str_split s) \<Longrightarrow> w \<noteq> []"
  unfolding str_split_def by (rule split_ws_nonempty)

lemma split_long_groups:
  assumes "\<forall>w \<in> set ws. w \<noteq> []"
  shows "split_long ws i acc = acc @ map (str_join '' '') (word_groups 100 (drop i ws))"
  using assms
proof (induction ws i acc rule: split_long.induct)
  case (1 ws i acc)
  show ?case
  proof (cases "i < length ws")
    case True
    let ?g = "take 100 (drop i ws)"
    from True have ne: "drop i ws \<noteq> []" by simp
    then have g_ne: "?g \<noteq> []" by simp
    have "hd ?g \<in> set ws"
      using g_ne by (metis hd_in_set in_set_dropD in_set_takeD)
    with "1.prems" have "hd ?g \<noteq> []" by blast
    with g_ne have chunk: "str_join '' '' ?g \<noteq> []" by (rule str_join_nonempty)
    have "split_long ws i acc = split_long ws (i + 100) (acc @ [str_join '' '' ?g])"
      using True chunk by (subst split_long.simps) (simp add: Let_def)
    also have "\<dots> = (acc @ [str_join '' '' ?g]) @
        map (str_join '' '') (word_groups 100 (drop (i + 100) ws))"
      using "1.IH" [OF True refl] chunk "1.prems" by simp
    also have "\<dots> = acc @ map (str_join '' '') (word_groups 100 (drop i ws))"
      using ne by (subst (2) word_groups.simps) (simp add: add.commute)
    finally show ?thesis .
  next
    case False
    then show ?thesis
      by (subst split_long.simps, subst word_groups.simps) simp
  qed
qed

lemma do_paragraph_unit: "do_paragraph acc p = acc @ chunk_unit p"
  by (simp add: do_paragraph_def chunk_unit_def split_long_groups str_split_nonempty)

lemma foldl_do_paragraph: "foldl do_paragraph acc ps = acc @ concat (map chunk_unit ps)"
  by (induction ps arbitrary: acc) (simp_all add: do_paragraph_unit)

lemma paragraphs_units:
  "[str_strip p. p \<leftarrow> xs, str_strip p \<noteq> []] = filter (\<lambda>u. u \<noteq> []) (map str_strip xs)"
  by (induction xs) simp_all

lemma do_page_spec: "do_page acc s = acc @ chunker_spec s"
  by (simp add: do_page_def chunker_spec_def units_def paragraphs_units foldl_do_paragraph)

lemma foldl_do_page: "foldl do_page acc pages = acc @ concat (map chunker_spec pages)"
  by (induction pages arbitrary: acc) (simp_all add: do_page_spec)

lemma process_pdf_spec: "process_pdf pages = concat (map chunker_spec pages)"
  by (simp add: process_pdf_def foldl_do_page)

lemma concat_word_groups: "0 < n \<Longrightarrow> concat (word_groups n ws) = ws"
proof (induction n ws rule: word_groups.induct)
  case (1 n ws)
  then show ?case by (subst word_groups.simps) auto
qed

lemma ceil_div_step:
  fixes m n :: nat
  assumes "0 < n" "0 < m"
  shows "Suc ((m - n + n - 1) div n) = (m + n - 1) div n"
proof -
  have e: "m + n - 1 = (m - 1) + n" using assms by arith
  have "(m + n - 1) div n = ((m - 1) + n) div n" by (simp only: e)
  also have "\<dots> = (m - 1) div n + 1" by (rule div_add_self2) (use assms in simp)
  finally have rhs: "(m + n - 1) div n = Suc ((m - 1) div n)" by simp
  show ?thesis
  proof (cases "n \<le> m")
    case True
    then have "m - n + n - 1 = m - 1" by arith
    with rhs show ?thesis by simp
  next
    case False
    then have "m - n + n - 1 = n - 1" "m - 1 < n" by arith+
    with rhs assms show ?thesis by simp
  qed
qed

lemma length_word_groups: "0 < n \<Longrightarrow> length (word_groups n ws) = (length ws + n - 1) div n"
proof (induction n ws rule: word_groups.induct)
  case (1 n ws)
  show ?case
  proof (cases "ws = []")
    case True
    then show ?thesis using "1.prems" by (subst word_groups.simps) simp
  next
    case False
    then have len: "0 < length ws" by simp
    have "length (word_groups n ws) = Suc ((length ws - n + n - 1) div n)"
      using False "1.prems" "1.IH" by (subst word_groups.simps) simp
    also have "\<dots> = (length ws + n - 1) div n"
      using "1.prems" len by (rule ceil_div_step)
    finally show ?thesis .
  qed
qed

lemma nth_word_groups:
  "0 < n \<Longrightarrow> i < length (word_groups n ws) \<Longrightarrow> word_groups n ws ! i = take n (drop (i * n) ws)"
proof (induction n ws arbitrary: i rule: word_groups.induct)
  case (1 n ws)
  have ne: "ws \<noteq> []"
  proof
    assume "ws = []"
    then have "word_groups n ws = []" by (subst word_groups.simps) simp
    with "1.prems" show False by simp
  qed
  have unfold: "word_groups n ws = take n ws # word_groups n (drop n ws)"
    using ne "1.prems"(1) by (subst word_groups.simps) simp
  show ?case
  proof (cases i)
    case 0
    then show ?thesis by (simp add: unfold)
  next
    case (Suc j)
    with "1.prems" have "j < length (word_groups n (drop n ws))" by (simp add: unfold)
    with "1.IH" ne "1.prems"(1) have "word_groups n (drop n ws) ! j = take n (drop (j * n) (drop n ws))"
      by simp
    then show ?thesis by (simp add: unfold Suc add.commute)
  qed
qed

lemma split_nn_chars: "set (concat (split_nn cur s)) \<subseteq> set cur \<union> set s"
  by (induction cur s rule: split_nn.induct) auto

lemma str_strip_blank:
  assumes "\<forall>c \<in> set p. isspace c"
  shows "str_strip p = []"
proof -
  have e: "dropWhile isspace p = []"
    using assms by (simp add: dropWhile_eq_Nil_conv)
  show ?thesis by (simp only: str_strip_def e) simp
qed

lemma units_blank:
  assumes "\<forall>c \<in> set s. isspace c"
  shows "units s = []"
proof -
  have "str_strip p = []" if "p \<in> set (str_split_nn s)" for p
  proof (rule str_strip_blank, rule ballI)
    fix c assume "c \<in> set p"
    with that have "c \<in> set (concat (split_nn [] s))"
      unfolding str_split_nn_def by auto
    with split_nn_chars [of "[]" s] have "c \<in> set s" by auto
    with assms show "isspace c" by blast
  qed
  then show ?thesis
    by (simp add: units_def filter_empty_conv)
qed

lemma chunker_blank: "\<forall>c \<in> set s. isspace c \<Longrightarrow> chunker_spec s = []"
  by (simp add: chunker_spec_def units_blank)

lemma chunker_example:
  "process_pdf [''A short line.'' @ [CHR 0x0A, CHR 0x0A] @ concat (replicate 150 ''word '')] =
     [''A short line.'', str_join '' '' (replicate 100 ''word''),
      str_join '' '' (replicate 50 ''word'')]"
  by code_simp

text \<open>
  C7. \<open>process_pdf\<close> computes, page by page, the chunking policy of the specification:
  the text is split at blank-line boundaries (two consecutive newlines), the fields are trimmed and the empty ones
  dropped; a unit of at most 512 characters is one chunk, unchanged; a longer unit is
  split on whitespace and its words are emitted in groups of 100 (group \<open>i\<close> is the
  slice of the words from \<open>100 * i\<close>, so the order is kept and only the last group may be
  shorter; there are \<open>ceil(n / 100)\<close> groups), each joined with single spaces. A text of
  whitespace only gives no chunk. A short line, a blank line and 150 words give the
  short line and two word groups, of 100 and of 50 words.
\<close>

theorem chunker_policy:
  "process_pdf pages = concat (map chunker_spec pages)
   \<and> ((\<forall>c \<in> set s. isspace c) \<longrightarrow> process_pdf [s] = [])
   \<and> chunker_spec s =
       concat (map (\<lambda>u. if length u \<le> 512 then [u]
                         else map (str_join '' '') (word_groups 100 (str_split u)))
                   (filter (\<lambda>u. u \<noteq> []) (map str_strip (str_split_nn s))))
   \<and> concat (word_groups 100 ws) = ws
   \<and> length (word_groups 100 ws) = (length ws + 99) div 100
   \<and> (\<forall>i. i < length (word_groups 100 ws) \<longrightarrow>
          word_groups 100 ws ! i = take 100 (drop (i * 100) ws))
   \<and> process_pdf [''A short line.'' @ [CHR 0x0A, CHR 0x0A] @ concat (replicate 150 ''word '')] =
       [''A short line.'', str_join '' '' (replicate 100 ''word''),
        str_join '' '' (replicate 50 ''word'')]"
proof (intro conjI allI impI)
  show "process_pdf pages = concat (map chunker_spec pages)"
    by (rule process_pdf_spec)
  show "process_pdf [s] = []" if "\<forall>c \<in> set s. isspace c"
    using that by (simp add: process_pdf_spec chunker_blank)
  show "chunker_spec s =
       concat (map (\<lambda>u. if length u \<le> 512 then [u]
                         else map (str_join '' '') (word_groups 100 (str_split u)))
                   (filter (\<lambda>u. u \<noteq> []) (map str_strip (str_split_nn s))))"
    by (simp add: chunker_spec_def units_def chunk_unit_def cong: map_cong)
  show "concat (word_groups 100 ws) = ws"
    by (rule concat_word_groups) simp
  show "length (word_groups 100 ws) = (length ws + 99) div 100"
    using length_word_groups [of 100 ws] by simp
  show "word_groups 100 ws ! i = take 100 (drop (i * 100) ws)"
    if "i < length (word_groups 100 ws)" for i
    using that by (intro nth_word_groups) simp_all
  show "process_pdf [''A short line.'' @ [CHR 0x0A, CHR 0x0A] @ concat (replicate 150 ''word '')] =
       [''A short line.'', str_join '' '' (replicate 100 ''word''),
        str_join '' '' (replicate 50 ''word'')]"
    by (rule chunker_example)
qed

theorem chunker_policy_witness:
  "isspace (CHR 0x0A) \<and> process_pdf [[CHR 0x0A, CHR 0x0A, CHR 0x0A]] = []
   \<and> (0 :: nat) < length (word_groups 100 [''a'', ''b''])
   \<and> word_groups 100 [''a'', ''b''] ! 0 = [''a'', ''b'']"
proof -
  have "process_pdf [[CHR 0x0A, CHR 0x0A, CHR 0x0A]] = []"
    using chunker_policy [where s = "[CHR 0x0A, CHR 0x0A, CHR 0x0A]", THEN conjunct2, THEN conjunct1]
    by (simp add: isspace_def)
  moreover have len: "(0 :: nat) < length (word_groups 100 [''a'', ''b''])"
    by code_simp
  moreover have "word_groups 100 [''a'', ''b''] ! 0 = [''a'', ''b'']"
    using chunker_policy [where ws = "[''a'', ''b'']", THEN conjunct2, THEN conjunct2,
        THEN conjunct2, THEN conjunct2, THEN conjunct2, THEN conjunct1, rule_format, OF len]
    by simp
  moreover have "isspace (CHR 0x0A)" by (simp add: isspace_def)
  ultimately show ?thesis by blast
qed

section \<open>The index invariant\<close>

lemma add_vectors_aligned:
  "aligned s \<Longrightarrow> op_ok files (Add v cs) \<Longrightarrow> aligned (snd (add_vectors s v cs))"
  by (cases v) (auto simp: add_vectors_def faiss_add_def aligned_def ntotal_def)

lemma load_aligned:
  "aligned s \<Longrightarrow> op_ok files (Load p q) \<Longrightarrow> aligned (snd (load s p q files))"
  by (auto simp: load_def aligned_def Let_def split: sum.splits)

lemma apply_op_aligned: "aligned s \<Longrightarrow> op_ok files x \<Longrightarrow> aligned (apply_op files s x)"
proof (cases x)
  case (Add v cs)
  assume "aligned s" "op_ok files x"
  with Add show ?thesis by (simp add: add_vectors_aligned)
next
  case (Load p q)
  assume "aligned s" "op_ok files x"
  with Load show ?thesis by (simp add: load_aligned)
next
  case Clear
  then show ?thesis
    by (simp add: aligned_def FAISSIndex_init_def IndexFlatL2_init_def ntotal_def)
qed

lemma run_ops_aligned:
  "aligned s \<Longrightarrow> list_all (op_ok files) ops \<Longrightarrow> aligned (run_ops files s ops)"
  unfolding run_ops_def
  by (induction ops arbitrary: s) (simp_all add: apply_op_aligned)

lemma add_vectors_entries:
  assumes "aligned s" "n = faiss_d (index s)"
  shows "entries (snd (add_vectors s (Array2 n rows) cs)) = entries s @ zip rows cs"
  using assms by (simp add: add_vectors_def faiss_add_def entries_def aligned_def ntotal_def)

text \<open>
  C1 (as amended). The index keeps as many vectors as chunks, position by position,
  through every run of add, load and clear calls in which each add is given as many
  vectors as chunks and each load either fails on the index file or reads an index and a
  chunk list of the same length. A new index is aligned, and an add of \<open>n\<close> vectors of the
  index's dimension with \<open>n\<close> chunks appends the pairs (vector, chunk) at the end, in
  order.
\<close>

theorem index_alignment_preserved:
  "(aligned s \<and> list_all (op_ok files) ops \<longrightarrow> aligned (run_ops files s ops))
   \<and> aligned (FAISSIndex_init n)
   \<and> (aligned s \<and> n = faiss_d (index s) \<and> length rows = length cs \<longrightarrow>
        aligned (snd (add_vectors s (Array2 n rows) cs))
        \<and> entries (snd (add_vectors s (Array2 n rows) cs)) = entries s @ zip rows cs)"
proof (intro conjI impI)
  show "aligned (run_ops files s ops)" if "aligned s \<and> list_all (op_ok files) ops"
    using that by (simp add: run_ops_aligned)
  show "aligned (FAISSIndex_init n)"
    by (simp add: aligned_def FAISSIndex_init_def IndexFlatL2_init_def ntotal_def)
  show "aligned (snd (add_vectors s (Array2 n rows) cs))"
    if "aligned s \<and> n = faiss_d (index s) \<and> length rows = length cs"
    using that add_vectors_aligned [of s files "Array2 n rows" cs] by simp
  show "entries (snd (add_vectors s (Array2 n rows) cs)) = entries s @ zip rows cs"
    if "aligned s \<and> n = faiss_d (index s) \<and> length rows = length cs"
    using that by (simp add: add_vectors_entries)
qed

text \<open>
  A run of four such calls from a new index.
\<close>

theorem index_alignment_preserved_witness:
  "aligned (FAISSIndex_init 2)
   \<and> list_all (op_ok [''i'' \<mapsto> IndexBlob \<lparr>faiss_d = 2, xb = [[1, 2]]\<rparr>, ''c'' \<mapsto> JsonList [''x'']])
        [Add (Array2 2 [[0, 0], [1, 1]]) [''a'', ''b''], Clear, Load ''i'' ''c'',
         Add (Array2 2 [[3, 4]]) [''y'']]
   \<and> aligned (run_ops [''i'' \<mapsto> IndexBlob \<lparr>faiss_d = 2, xb = [[1, 2]]\<rparr>, ''c'' \<mapsto> JsonList [''x'']]
        (FAISSIndex_init 2)
        [Add (Array2 2 [[0, 0], [1, 1]]) [''a'', ''b''], Clear, Load ''i'' ''c'',
         Add (Array2 2 [[3, 4]]) [''y'']])
   \<and> entries (snd (add_vectors (FAISSIndex_init 2) (Array2 2 [[0, 0], [1, 1]]) [''a'', ''b'']))
       = [([0, 0], ''a''), ([1, 1], ''b'')]"
  using index_alignment_preserved [of "FAISSIndex_init 2"
      "[''i'' \<mapsto> IndexBlob \<lparr>faiss_d = 2, xb = [[1, 2]]\<rparr>, ''c'' \<mapsto> JsonList [''x'']]"
      "[Add (Array2 2 [[0, 0], [1, 1]]) [''a'', ''b''], Clear, Load ''i'' ''c'',
         Add (Array2 2 [[3, 4]]) [''y'']]" 2 "[[0, 0], [1, 1]]" "[''a'', ''b'']"]
  by (simp add: aligned_def FAISSIndex_init_def IndexFlatL2_init_def ntotal_def entries_def
      faiss_read_index_def json_load_file_def)

text \<open>
  C1 as stated fails: \<open>add_vectors\<close> does not compare the two lengths, and an add of
  two vectors with one chunk succeeds and leaves two vectors beside one chunk.
\<close>

theorem add_mismatch_counterexample:
  "aligned (FAISSIndex_init 2)
   \<and> fst (add_vectors (FAISSIndex_init 2) (Array2 2 [[0, 0], [1, 1]]) [''a'']) = Inr ()
   \<and> \<not> aligned (run_ops Map.empty (FAISSIndex_init 2) [Add (Array2 2 [[0, 0], [1, 1]]) [''a'']])"
  by (simp add: aligned_def FAISSIndex_init_def IndexFlatL2_init_def ntotal_def run_ops_def
      add_vectors_def faiss_add_def)

section \<open>add\_vectors\<close>

text \<open>
  C2 (as amended). \<open>add_vectors\<close> fails, with the library's \<open>AssertionError\<close> and
  leaving the index as it was, exactly when the row length of the array differs from the
  dimension of the index. Otherwise it succeeds and appends all the rows and all the
  chunks at the end of their collections, whether or not there are as many rows as
  chunks; with as many, the two collections grow in lock-step.
\<close>

theorem add_vectors_checks:
  "(n \<noteq> faiss_d (index s) \<longrightarrow> add_vectors s (Array2 n rows) cs = (Inl AssertionError, s))
   \<and> (n = faiss_d (index s) \<longrightarrow>
        add_vectors s (Array2 n rows) cs =
          (Inr (), s\<lparr>index := (index s)\<lparr>xb := xb (index s) @ rows\<rparr>, chunks := chunks s @ cs\<rparr>))"
  by (simp add: add_vectors_def faiss_add_def)

text \<open>
  An add of the wrong dimension and an add of the right one.
\<close>

theorem add_vectors_checks_witness:
  "(3::nat) \<noteq> faiss_d (index (FAISSIndex_init 2))
   \<and> add_vectors (FAISSIndex_init 2) (Array2 3 [[0, 0, 0]]) [''a''] =
        (Inl AssertionError, FAISSIndex_init 2)
   \<and> (2::nat) = faiss_d (index (FAISSIndex_init 2))
   \<and> add_vectors (FAISSIndex_init 2) (Array2 2 [[0, 0]]) [''a''] =
        (Inr (), \<lparr>dimension = 2, index = \<lparr>faiss_d = 2, xb = [[0, 0]]\<rparr>, chunks = [''a'']\<rparr>)"
  using add_vectors_checks [of 3 "FAISSIndex_init 2" "[[0, 0, 0]]" "[''a'']"]
    add_vectors_checks [of 2 "FAISSIndex_init 2" "[[0, 0]]" "[''a'']"]
  by (simp add: FAISSIndex_init_def IndexFlatL2_init_def)

text \<open>
  C2 as stated fails: one vector with two chunks is accepted.
\<close>

theorem add_length_mismatch_counterexample:
  "length [[0, 0 :: real]] \<noteq> length [''a'', ''b'']
   \<and> add_vectors (FAISSIndex_init 2) (Array2 2 [[0, 0]]) [''a'', ''b''] =
        (Inr (), \<lparr>dimension = 2, index = \<lparr>faiss_d = 2, xb = [[0, 0]]\<rparr>, chunks = [''a'', ''b'']\<rparr>)"
  by (simp add: add_vectors_def faiss_add_def FAISSIndex_init_def IndexFlatL2_init_def)

section \<open>search\<close>

lemma scan_label_lower: "(dv, l) \<in> set (scan lib q ys i) \<Longrightarrow> int i \<le> l"
  by (induction ys arbitrary: i) (fastforce split: option.splits if_splits)+

lemma scan_labels_increasing: "sorted_wrt (<) (map snd (scan lib q ys i))"
proof (induction ys arbitrary: i)
  case Nil
  then show ?case by simp
next
  case (Cons y ys)
  have "int i < l" if "(dv, l) \<in> set (scan lib q ys (Suc i))" for dv l
    using scan_label_lower [OF that] by simp
  with Cons [of "Suc i"] show ?case
    by (auto split: option.splits)
qed

lemma scan_member:
  "(dv, l) \<in> set (scan lib q ys i) \<longleftrightarrow>
     (\<exists>p < length ys. l = int (i + p) \<and> fvec_L2sqr lib q (ys ! p) = Some dv \<and> dv < FLT_MAX)"
proof (induction ys arbitrary: i)
  case Nil
  then show ?case by simp
next
  case (Cons y ys)
  have shift: "(\<exists>p < length (y # ys). P p) \<longleftrightarrow> P 0 \<or> (\<exists>p < length ys. P (Suc p))" for P
    by (auto simp: less_Suc_eq_0_disj)
  show ?case
    by (subst shift) (auto simp: Cons split: option.splits)
qed

lemma length_scan: "length (scan lib q ys i) = usable_count lib ys q"
  by (induction ys arbitrary: i) (auto simp: usable_count_def usable_def split: option.splits)

lemma length_scored: "length (scored lib ys q) = usable_count lib ys q"
  by (simp add: scored_def length_scan)

lemma scored_labels_increasing: "sorted_wrt (<) (map snd (scored lib ys q))"
  by (simp add: scored_def scan_labels_increasing)

lemma scored_member:
  "(dv, l) \<in> set (scored lib ys q) \<longleftrightarrow>
     (\<exists>p < length ys. l = int p \<and> fvec_L2sqr lib q (ys ! p) = Some dv \<and> dv < FLT_MAX)"
  by (simp add: scored_def scan_member)

lemma scored_labels:
  "snd ` set (scored lib ys q) = int ` {p. p < length ys \<and> usable lib q (ys ! p)}"
proof (intro set_eqI iffI)
  fix l assume "l \<in> snd ` set (scored lib ys q)"
  then obtain dv where "(dv, l) \<in> set (scored lib ys q)" by force
  then show "l \<in> int ` {p. p < length ys \<and> usable lib q (ys ! p)}"
    by (auto simp: scored_member usable_def)
next
  fix l assume "l \<in> int ` {p. p < length ys \<and> usable lib q (ys ! p)}"
  then obtain p where p: "l = int p" "p < length ys" "usable lib q (ys ! p)" by blast
  then obtain dv where "fvec_L2sqr lib q (ys ! p) = Some dv" "dv < FLT_MAX"
    by (auto simp: usable_def split: option.splits)
  with p have "(dv, l) \<in> set (scored lib ys q)" by (auto simp: scored_member)
  then show "l \<in> snd ` set (scored lib ys q)" by force
qed

lemma usable_count_le: "usable_count lib ys q \<le> length ys"
  by (simp add: usable_count_def)

lemma length_knn: "length (knn lib ys q k) = k"
  by (simp add: knn_def Let_def)

lemma length_ranked:
  "length (take k (sort_key fst (scored lib ys q))) = min k (usable_count lib ys q)"
  by (simp add: length_scored)

lemma knn_take:
  "take (min k (usable_count lib ys q)) (knn lib ys q k) = take k (sort_key fst (scored lib ys q))"
  by (cases "k \<le> usable_count lib ys q") (simp_all add: knn_def Let_def length_scored min_def)

lemma knn_drop:
  "drop (min k (usable_count lib ys q)) (knn lib ys q k) =
     replicate (k - min k (usable_count lib ys q)) (FLT_MAX, - 1)"
  by (cases "k \<le> usable_count lib ys q") (simp_all add: knn_def Let_def length_scored min_def)

lemma distinct_ranked_labels:
  "distinct (map snd (take k (sort_key fst (scored lib ys q))))"
proof -
  let ?zs = "scored lib ys q"
  have "distinct (map snd ?zs)"
    using scored_labels_increasing [of lib ys q] strict_sorted_iff by blast
  moreover have "mset (map snd (sort_key fst ?zs)) = mset (map snd ?zs)"
    by (simp only: mset_map mset_sort)
  ultimately have "distinct (map snd (sort_key fst ?zs))"
    by (metis mset_eq_imp_distinct_iff)
  then have "distinct (take k (map snd (sort_key fst ?zs)))" by (rule distinct_take)
  then show ?thesis by (simp only: take_map)
qed

lemma ranked_labels_subset:
  "snd ` set (take k (sort_key fst (scored lib ys q))) \<subseteq>
     int ` {p. p < length ys \<and> usable lib q (ys ! p)}"
proof -
  have "set (take k (sort_key fst (scored lib ys q))) \<subseteq> set (scored lib ys q)"
    using set_take_subset [of k "sort_key fst (scored lib ys q)"] by simp
  then have "snd ` set (take k (sort_key fst (scored lib ys q))) \<subseteq> snd ` set (scored lib ys q)"
    by blast
  then show ?thesis by (simp only: scored_labels)
qed

lemma ranked_labels_all:
  assumes "usable_count lib ys q \<le> k"
  shows "snd ` set (take k (sort_key fst (scored lib ys q))) =
     int ` {p. p < length ys \<and> usable lib q (ys ! p)}"
proof -
  have "take k (sort_key fst (scored lib ys q)) = sort_key fst (scored lib ys q)"
    using assms by (simp add: length_scored)
  then show ?thesis by (simp add: scored_labels)
qed

lemma search_knn:
  assumes "length q = faiss_d (index s)" "0 < k" "k < 2 ^ 61" "k \<le> int (max_k lib)"
  shows "search lib s q k =
    (Inr ([map fst (knn lib (xb (index s)) q (nat k))],
          [map snd (knn lib (xb (index s)) q (nat k))]), s)"
  using assms by (simp add: search_def reshape_row_def faiss_search_def Let_def)

text \<open>
  C3 (as amended). For a query of the dimension of the index (an index of dimension 0 is
  left out), \<open>search\<close> fails with the library's \<open>AssertionError\<close> when \<open>k \<le> 0\<close>, with
  numpy's \<open>ValueError\<close> when \<open>k \<ge> 2 ^ 61\<close>, and with \<open>MemoryError\<close> when the machine has
  no memory for \<open>k\<close> result slots. Otherwise it succeeds, on an empty index too, and
  returns exactly \<open>k\<close> distances and \<open>k\<close> labels for the one query. With \<open>c\<close> the number of
  stored vectors whose computed distance is a number below \<open>FLT_MAX\<close> (all \<open>n\<close> of them
  unless a distance overflows or is no number), the first \<open>min k c\<close> labels are positions
  of such vectors, each at most once, and all of them when \<open>k \<ge> c\<close>; the slots after them
  hold the label \<open>-1\<close> and the distance \<open>FLT_MAX\<close>. The index is left as it was.
\<close>

theorem search_result_slots:
  assumes "length q = faiss_d (index s)" "0 < faiss_d (index s)"
  shows "((\<forall>y \<in> set (xb (index s)). usable lib q y) \<longrightarrow>
           usable_count lib (xb (index s)) q = ntotal (index s))
    \<and> (k \<le> 0 \<longrightarrow> search lib s q k = (Inl AssertionError, s))
    \<and> (2 ^ 61 \<le> k \<longrightarrow> search lib s q k = (Inl ValueError, s))
    \<and> (0 < k \<and> k < 2 ^ 61 \<and> int (max_k lib) < k \<longrightarrow>
         search lib s q k = (Inl MemoryError, s))
    \<and> (0 < k \<and> k < 2 ^ 61 \<and> k \<le> int (max_k lib) \<longrightarrow>
         (\<exists>D I. search lib s q k = (Inr ([D], [I]), s)
            \<and> length D = nat k \<and> length I = nat k
            \<and> distinct (take (min (nat k) (usable_count lib (xb (index s)) q)) I)
            \<and> set (take (min (nat k) (usable_count lib (xb (index s)) q)) I) \<subseteq>
                int ` {p. p < ntotal (index s) \<and> usable lib q (xb (index s) ! p)}
            \<and> (usable_count lib (xb (index s)) q \<le> nat k \<longrightarrow>
                 set (take (min (nat k) (usable_count lib (xb (index s)) q)) I) =
                   int ` {p. p < ntotal (index s) \<and> usable lib q (xb (index s) ! p)})
            \<and> drop (min (nat k) (usable_count lib (xb (index s)) q)) I =
                replicate (nat k - min (nat k) (usable_count lib (xb (index s)) q)) (- 1)
            \<and> drop (min (nat k) (usable_count lib (xb (index s)) q)) D =
                replicate (nat k - min (nat k) (usable_count lib (xb (index s)) q)) FLT_MAX))"
proof (intro conjI impI)
  assume "\<forall>y \<in> set (xb (index s)). usable lib q y"
  then show "usable_count lib (xb (index s)) q = ntotal (index s)"
    by (simp add: usable_count_def ntotal_def)
next
  assume "k \<le> 0"
  with assms show "search lib s q k = (Inl AssertionError, s)"
    by (simp add: search_def reshape_row_def faiss_search_def)
next
  assume "2 ^ 61 \<le> k"
  with assms show "search lib s q k = (Inl ValueError, s)"
    by (simp add: search_def reshape_row_def faiss_search_def)
next
  assume "0 < k \<and> k < 2 ^ 61 \<and> int (max_k lib) < k"
  with assms show "search lib s q k = (Inl MemoryError, s)"
    by (simp add: search_def reshape_row_def faiss_search_def)
next
  assume k: "0 < k \<and> k < 2 ^ 61 \<and> k \<le> int (max_k lib)"
  let ?ys = "xb (index s)"
  let ?r = "knn lib ?ys q (nat k)"
  let ?m = "min (nat k) (usable_count lib ?ys q)"
  let ?R = "take (nat k) (sort_key fst (scored lib ?ys q))"
  have tk: "take ?m (map snd ?r) = map snd ?R"
    by (simp only: take_map knn_take)
  have "search lib s q k = (Inr ([map fst ?r], [map snd ?r]), s)"
    using assms(1) k by (intro search_knn) simp_all
  moreover have "length (map fst ?r) = nat k" "length (map snd ?r) = nat k"
    by (simp_all add: length_knn)
  moreover have "distinct (take ?m (map snd ?r))"
    by (simp only: tk distinct_ranked_labels)
  moreover have "set (take ?m (map snd ?r)) \<subseteq>
      int ` {p. p < ntotal (index s) \<and> usable lib q (?ys ! p)}"
    unfolding ntotal_def tk using ranked_labels_subset [of "nat k" lib ?ys q] by simp
  moreover have "usable_count lib ?ys q \<le> nat k \<longrightarrow> set (take ?m (map snd ?r)) =
      int ` {p. p < ntotal (index s) \<and> usable lib q (?ys ! p)}"
    unfolding ntotal_def tk using ranked_labels_all [of lib ?ys q "nat k"] by simp
  moreover have "drop ?m (map snd ?r) = replicate (nat k - ?m) (- 1)"
    by (simp only: drop_map knn_drop) simp
  moreover have "drop ?m (map fst ?r) = replicate (nat k - ?m) FLT_MAX"
    by (simp only: drop_map knn_drop) simp
  ultimately show "\<exists>D I. search lib s q k = (Inr ([D], [I]), s)
            \<and> length D = nat k \<and> length I = nat k
            \<and> distinct (take ?m I)
            \<and> set (take ?m I) \<subseteq> int ` {p. p < ntotal (index s) \<and> usable lib q (?ys ! p)}
            \<and> (usable_count lib ?ys q \<le> nat k \<longrightarrow>
                 set (take ?m I) = int ` {p. p < ntotal (index s) \<and> usable lib q (?ys ! p)})
            \<and> drop ?m I = replicate (nat k - ?m) (- 1)
            \<and> drop ?m D = replicate (nat k - ?m) FLT_MAX"
    by blast
qed

text \<open>
  An index of one vector searched with \<open>k = 3\<close>, with \<open>k = 0\<close>, with \<open>k = 2 ^ 61\<close> and
  with more slots than the machine of \<open>exact_lib\<close> has memory for.
\<close>

theorem search_result_slots_witness:
  "length [1, 1 :: real] =
       faiss_d (index \<lparr>dimension = 2, index = \<lparr>faiss_d = 2, xb = [[0, 0]]\<rparr>, chunks = [''a'']\<rparr>)
   \<and> 0 < faiss_d (index \<lparr>dimension = 2, index = \<lparr>faiss_d = 2, xb = [[0, 0]]\<rparr>, chunks = [''a'']\<rparr>)
   \<and> (0 :: int) < 3 \<and> (3 :: int) < 2 ^ 61 \<and> 3 \<le> int (max_k exact_lib)
   \<and> (\<exists>D I. search exact_lib \<lparr>dimension = 2, index = \<lparr>faiss_d = 2, xb = [[0, 0]]\<rparr>, chunks = [''a'']\<rparr>
                 [1, 1] 3 =
          (Inr ([D], [I]), \<lparr>dimension = 2, index = \<lparr>faiss_d = 2, xb = [[0, 0]]\<rparr>, chunks = [''a'']\<rparr>)
        \<and> length D = 3 \<and> length I = 3 \<and> drop 1 I = [- 1, - 1] \<and> drop 1 D = [FLT_MAX, FLT_MAX])
   \<and> search exact_lib \<lparr>dimension = 2, index = \<lparr>faiss_d = 2, xb = [[0, 0]]\<rparr>, chunks = [''a'']\<rparr> [1, 1] 0 =
       (Inl AssertionError, \<lparr>dimension = 2, index = \<lparr>faiss_d = 2, xb = [[0, 0]]\<rparr>, chunks = [''a'']\<rparr>)
   \<and> search exact_lib \<lparr>dimension = 2, index = \<lparr>faiss_d = 2, xb = [[0, 0]]\<rparr>, chunks = [''a'']\<rparr> [1, 1]
         (2 ^ 61) =
       (Inl ValueError, \<lparr>dimension = 2, index = \<lparr>faiss_d = 2, xb = [[0, 0]]\<rparr>, chunks = [''a'']\<rparr>)
   \<and> search exact_lib \<lparr>dimension = 2, index = \<lparr>faiss_d = 2, xb = [[0, 0]]\<rparr>, chunks = [''a'']\<rparr> [1, 1]
         1001 =
       (Inl MemoryError, \<lparr>dimension = 2, index = \<lparr>faiss_d = 2, xb = [[0, 0]]\<rparr>, chunks = [''a'']\<rparr>)"
proof -
  let ?s = "\<lparr>dimension = 2, index = \<lparr>faiss_d = 2, xb = [[0, 0]]\<rparr>, chunks = [''a'']\<rparr>"
  have h1: "length [1, 1 :: real] = faiss_d (index ?s)" by simp
  have h2: "0 < faiss_d (index ?s)" by simp
  have h3: "(0 :: int) < 3 \<and> (3 :: int) < 2 ^ 61 \<and> 3 \<le> int (max_k exact_lib)"
    by (simp add: exact_lib_def)
  have c: "usable_count exact_lib [[0, 0]] [1, 1] = 1"
    by (simp add: usable_count_def usable_def exact_lib_def exact_L2sqr_def FLT_MAX_def)
  from search_result_slots [OF h1 h2, of exact_lib 3] h3
  obtain D I where "search exact_lib ?s [1, 1] 3 = (Inr ([D], [I]), ?s)"
    "length D = nat 3" "length I = nat 3"
    "drop (min (nat 3) (usable_count exact_lib (xb (index ?s)) [1, 1])) I =
       replicate (nat 3 - min (nat 3) (usable_count exact_lib (xb (index ?s)) [1, 1])) (- 1)"
    "drop (min (nat 3) (usable_count exact_lib (xb (index ?s)) [1, 1])) D =
       replicate (nat 3 - min (nat 3) (usable_count exact_lib (xb (index ?s)) [1, 1])) FLT_MAX"
    by blast
  then have "search exact_lib ?s [1, 1] 3 = (Inr ([D], [I]), ?s)
      \<and> length D = 3 \<and> length I = 3 \<and> drop 1 I = [- 1, - 1] \<and> drop 1 D = [FLT_MAX, FLT_MAX]"
    by (simp add: c numeral_2_eq_2)
  moreover have "search exact_lib ?s [1, 1] 0 = (Inl AssertionError, ?s)"
    using search_result_slots [OF h1 h2, of exact_lib 0] by simp
  moreover have "search exact_lib ?s [1, 1] (2 ^ 61) = (Inl ValueError, ?s)"
    using search_result_slots [OF h1 h2, of exact_lib "2 ^ 61"] by simp
  moreover have "search exact_lib ?s [1, 1] 1001 = (Inl MemoryError, ?s)"
    using search_result_slots [OF h1 h2, of exact_lib 1001] by (simp add: exact_lib_def)
  ultimately show ?thesis using h1 h2 h3 by blast
qed

text \<open>
  C3 as stated fails: on an index of one vector, \<open>k = 3\<close> gives three result slots, not
  one; \<open>k = 0\<close> raises; and an empty index searched with \<open>k = 2\<close> gives two slots of
  label \<open>-1\<close>, not an empty result.
\<close>

theorem search_fixed_width_counterexample:
  "ntotal (index \<lparr>dimension = 2, index = \<lparr>faiss_d = 2, xb = [[0, 0]]\<rparr>, chunks = [''a'']\<rparr>) = 1
   \<and> fst (search exact_lib \<lparr>dimension = 2, index = \<lparr>faiss_d = 2, xb = [[0, 0]]\<rparr>, chunks = [''a'']\<rparr>
            [1, 1] 3) =
       Inr ([[2, FLT_MAX, FLT_MAX]], [[0, - 1, - 1]])
   \<and> fst (search exact_lib \<lparr>dimension = 2, index = \<lparr>faiss_d = 2, xb = [[0, 0]]\<rparr>, chunks = [''a'']\<rparr>
            [1, 1] 0) =
       Inl AssertionError
   \<and> fst (search exact_lib (FAISSIndex_init 2) [1, 1] 2) = Inr ([[FLT_MAX, FLT_MAX]], [[- 1, - 1]])"
  by (simp add: search_def reshape_row_def faiss_search_def knn_def scored_def exact_lib_def
      exact_L2sqr_def ntotal_def FAISSIndex_init_def IndexFlatL2_init_def Let_def FLT_MAX_def
      numeral_2_eq_2 numeral_3_eq_3)

text \<open>
  The ranked results are in the order of \<open>ranks_before\<close>: insertion sort by distance
  keeps the stored order among equal distances.
\<close>

lemma insort_before:
  assumes "sorted_wrt ranks_before xs" "\<forall>y \<in> set xs. snd z < snd y"
  shows "sorted_wrt ranks_before (insort_key fst z xs)"
  using assms
proof (induction xs)
  case Nil
  then show ?case by simp
next
  case (Cons y ys)
  show ?case
  proof (cases "fst z \<le> fst y")
    case True
    have "ranks_before z w" if "w \<in> set (y # ys)" for w
    proof -
      have "fst y \<le> fst w" using that Cons.prems(1) by (auto simp: ranks_before_def)
      with True have "fst z \<le> fst w" by simp
      moreover have "snd z < snd w" using that Cons.prems(2) by blast
      ultimately show ?thesis by (auto simp: ranks_before_def)
    qed
    with True Cons.prems(1) show ?thesis by simp
  next
    case False
    then have "ranks_before y z" by (simp add: ranks_before_def)
    moreover have "sorted_wrt ranks_before (insort_key fst z ys)"
      using Cons by simp
    ultimately show ?thesis using False Cons.prems(1) by (auto simp: set_insort_key)
  qed
qed

lemma sort_key_before:
  "sorted_wrt (<) (map snd zs) \<Longrightarrow> sorted_wrt ranks_before (sort_key fst zs)"
proof (induction zs)
  case Nil
  then show ?case by simp
next
  case (Cons z zs)
  then have "sorted_wrt ranks_before (sort_key fst zs)" by simp
  moreover have "\<forall>y \<in> set (sort_key fst zs). snd z < snd y"
    using Cons.prems by auto
  ultimately show ?case by (simp add: insort_before)
qed

lemma ranked_before: "sorted_wrt ranks_before (take k (sort_key fst (scored lib ys q)))"
  by (intro sorted_wrt_take sort_key_before scored_labels_increasing)

lemma knn_nth_ranked:
  assumes "j < min k (usable_count lib ys q)"
  shows "knn lib ys q k ! j = take k (sort_key fst (scored lib ys q)) ! j"
proof -
  have "knn lib ys q k ! j = take (min k (usable_count lib ys q)) (knn lib ys q k) ! j"
    using assms by simp
  then show ?thesis by (simp only: knn_take)
qed

lemma knn_nth_filler:
  assumes "min k (usable_count lib ys q) \<le> j" "j < k"
  shows "knn lib ys q k ! j = (FLT_MAX, - 1)"
proof -
  let ?m = "min k (usable_count lib ys q)"
  have "knn lib ys q k ! j = drop ?m (knn lib ys q k) ! (j - ?m)"
    using assms by (simp add: length_knn)
  also have "\<dots> = replicate (k - ?m) (FLT_MAX, - 1) ! (j - ?m)"
    by (simp only: knn_drop)
  also have "\<dots> = (FLT_MAX, - 1)"
    using assms by (intro nth_replicate) arith
  finally show ?thesis .
qed

lemma knn_nth_stored:
  assumes "j < min k (usable_count lib ys q)"
  shows "\<exists>p < length ys. snd (knn lib ys q k ! j) = int p
           \<and> fvec_L2sqr lib q (ys ! p) = Some (fst (knn lib ys q k ! j))
           \<and> fst (knn lib ys q k ! j) < FLT_MAX"
proof -
  let ?R = "take k (sort_key fst (scored lib ys q))"
  have "?R ! j \<in> set ?R" using assms by (intro nth_mem) (simp add: length_scored)
  then have "?R ! j \<in> set (sort_key fst (scored lib ys q))" by (rule in_set_takeD)
  then have "(fst (?R ! j), snd (?R ! j)) \<in> set (scored lib ys q)" by simp
  then show ?thesis
    using assms by (simp only: scored_member knn_nth_ranked)
qed

lemma knn_nth_before:
  assumes "i < j" "j < min k (usable_count lib ys q)"
  shows "ranks_before (knn lib ys q k ! i) (knn lib ys q k ! j)"
proof -
  let ?R = "take k (sort_key fst (scored lib ys q))"
  have "j < length ?R" using assms(2) by (simp add: length_scored)
  with ranked_before assms(1) have "ranks_before (?R ! i) (?R ! j)"
    by (rule sorted_wrt_nth_less)
  then show ?thesis using assms by (simp add: knn_nth_ranked)
qed

lemma knn_nearest:
  assumes "p < length ys" "fvec_L2sqr lib q (ys ! p) = Some dv" "dv < FLT_MAX"
    "int p \<notin> snd ` set (take k (sort_key fst (scored lib ys q)))"
    "j < min k (usable_count lib ys q)"
  shows "ranks_before (knn lib ys q k ! j) (dv, int p)"
proof -
  let ?S = "sort_key fst (scored lib ys q)"
  let ?e = "(dv, int p)"
  have "sorted_wrt ranks_before (take k ?S @ drop k ?S)"
    using sort_key_before [OF scored_labels_increasing] by simp
  then have sep: "\<forall>a \<in> set (take k ?S). \<forall>b \<in> set (drop k ?S). ranks_before a b"
    by (simp only: sorted_wrt_append) blast
  have "?e \<in> set (scored lib ys q)" using assms(1-3) by (auto simp: scored_member)
  then have "?e \<in> set (take k ?S @ drop k ?S)" by simp
  moreover have "?e \<notin> set (take k ?S)" using assms(4) by force
  ultimately have "?e \<in> set (drop k ?S)" by (simp only: set_append) blast
  moreover have "take k ?S ! j \<in> set (take k ?S)"
    using assms(5) by (intro nth_mem) (simp add: length_scored)
  ultimately have "ranks_before (take k ?S ! j) ?e" using sep by blast
  then show ?thesis using assms(5) by (simp add: knn_nth_ranked)
qed

text \<open>
  C4 (as amended). For an index with as many vectors as chunks, a query of the index's
  dimension and a \<open>k \<ge> 1\<close> that numpy and the machine accept, the first \<open>min k c\<close> results
  of \<open>search\<close> (\<open>c\<close> as in C3) are positions of stored chunks, each with the distance the
  library computes for its vector, a number below \<open>FLT_MAX\<close>. They come in
  non-decreasing order of the computed distance, ties in insertion order (the lower
  position first), and every stored vector with such a distance that is not among them
  comes after each of them in this order. The slots after them hold the label \<open>-1\<close> and
  \<open>FLT_MAX\<close>: they are no stored chunks.
\<close>

theorem search_nearest_first:
  assumes "length q = faiss_d (index s)" "0 < faiss_d (index s)"
    "0 < k" "k < 2 ^ 61" "k \<le> int (max_k lib)" "aligned s"
  shows "\<exists>D I. search lib s q k = (Inr ([D], [I]), s) \<and> length D = nat k \<and> length I = nat k
    \<and> (\<forall>j. j < min (nat k) (usable_count lib (xb (index s)) q) \<longrightarrow>
          0 \<le> I ! j \<and> nat (I ! j) < length (chunks s)
          \<and> fvec_L2sqr lib q (xb (index s) ! nat (I ! j)) = Some (D ! j) \<and> D ! j < FLT_MAX)
    \<and> (\<forall>i j. i < j \<and> j < min (nat k) (usable_count lib (xb (index s)) q) \<longrightarrow>
          D ! i < D ! j \<or> (D ! i = D ! j \<and> I ! i < I ! j))
    \<and> (\<forall>p dv j. p < ntotal (index s)
            \<and> fvec_L2sqr lib q (xb (index s) ! p) = Some dv \<and> dv < FLT_MAX
            \<and> int p \<notin> set (take (min (nat k) (usable_count lib (xb (index s)) q)) I)
            \<and> j < min (nat k) (usable_count lib (xb (index s)) q) \<longrightarrow>
          D ! j < dv \<or> (D ! j = dv \<and> I ! j < int p))
    \<and> (\<forall>j. min (nat k) (usable_count lib (xb (index s)) q) \<le> j \<and> j < nat k \<longrightarrow>
          I ! j = - 1 \<and> D ! j = FLT_MAX)"
proof -
  let ?ys = "xb (index s)"
  let ?r = "knn lib ?ys q (nat k)"
  let ?m = "min (nat k) (usable_count lib ?ys q)"
  let ?D = "map fst ?r" and ?I = "map snd ?r"
  have n: "ntotal (index s) = length ?ys" "length (chunks s) = length ?ys"
    using assms(6) by (simp_all add: ntotal_def aligned_def)
  have nth: "?D ! j = fst (?r ! j)" "?I ! j = snd (?r ! j)" if "j < nat k" for j
    using that by (simp_all add: length_knn)
  have res: "search lib s q k = (Inr ([?D], [?I]), s)"
    using assms(1,3-5) by (rule search_knn)
  have len: "length ?D = nat k" "length ?I = nat k"
    by (simp_all add: length_knn)
  have stored: "0 \<le> ?I ! j \<and> nat (?I ! j) < length ?ys
      \<and> fvec_L2sqr lib q (?ys ! nat (?I ! j)) = Some (?D ! j) \<and> ?D ! j < FLT_MAX"
    if "j < ?m" for j
  proof -
    from that obtain p where "p < length ?ys" "snd (?r ! j) = int p"
      "fvec_L2sqr lib q (?ys ! p) = Some (fst (?r ! j))" "fst (?r ! j) < FLT_MAX"
      using knn_nth_stored by blast
    moreover have "j < nat k" using that by simp
    ultimately show ?thesis by (simp add: nth)
  qed
  have order: "?D ! i < ?D ! j \<or> (?D ! i = ?D ! j \<and> ?I ! i < ?I ! j)"
    if "i < j" "j < ?m" for i j
  proof -
    have "ranks_before (?r ! i) (?r ! j)" using that by (rule knn_nth_before)
    moreover have "i < nat k" "j < nat k" using that by simp_all
    ultimately show ?thesis by (simp add: nth ranks_before_def)
  qed
  have nearest: "?D ! j < dv \<or> (?D ! j = dv \<and> ?I ! j < int p)"
    if "p < length ?ys" "fvec_L2sqr lib q (?ys ! p) = Some dv" "dv < FLT_MAX"
      "int p \<notin> set (take ?m ?I)" "j < ?m" for p dv j
  proof -
    have "take ?m ?I = map snd (take (nat k) (sort_key fst (scored lib ?ys q)))"
      by (simp only: take_map knn_take)
    with that(4) have "int p \<notin> snd ` set (take (nat k) (sort_key fst (scored lib ?ys q)))"
      by simp
    with that have "ranks_before (?r ! j) (dv, int p)"
      by (intro knn_nearest)
    moreover have "j < nat k" using that by simp
    ultimately show ?thesis by (simp add: nth ranks_before_def)
  qed
  have filler: "?I ! j = - 1 \<and> ?D ! j = FLT_MAX" if "?m \<le> j" "j < nat k" for j
    using that by (simp add: nth knn_nth_filler)
  show ?thesis
    unfolding n using res len stored order nearest filler by blast
qed

text \<open>
  Three stored vectors, two of them at the same distance from the query.
\<close>

theorem search_nearest_first_witness:
  "length [1, 1 :: real] =
       faiss_d (index \<lparr>dimension = 2, index = \<lparr>faiss_d = 2, xb = [[0, 0], [1, 1], [1, 1]]\<rparr>,
                        chunks = [''a'', ''b'', ''c'']\<rparr>)
   \<and> 0 < faiss_d (index \<lparr>dimension = 2, index = \<lparr>faiss_d = 2, xb = [[0, 0], [1, 1], [1, 1]]\<rparr>,
                            chunks = [''a'', ''b'', ''c'']\<rparr>)
   \<and> (0 :: int) < 2 \<and> (2 :: int) < 2 ^ 61 \<and> 2 \<le> int (max_k exact_lib)
   \<and> aligned \<lparr>dimension = 2, index = \<lparr>faiss_d = 2, xb = [[0, 0], [1, 1], [1, 1]]\<rparr>,
               chunks = [''a'', ''b'', ''c'']\<rparr>
   \<and> (\<exists>D I. search exact_lib \<lparr>dimension = 2, index = \<lparr>faiss_d = 2, xb = [[0, 0], [1, 1], [1, 1]]\<rparr>,
                      chunks = [''a'', ''b'', ''c'']\<rparr> [1, 1] 2 =
          (Inr ([D], [I]), \<lparr>dimension = 2, index = \<lparr>faiss_d = 2, xb = [[0, 0], [1, 1], [1, 1]]\<rparr>,
                            chunks = [''a'', ''b'', ''c'']\<rparr>)
        \<and> (D ! 0 < D ! 1 \<or> (D ! 0 = D ! 1 \<and> I ! 0 < I ! 1)))
   \<and> fst (search exact_lib \<lparr>dimension = 2, index = \<lparr>faiss_d = 2, xb = [[0, 0], [1, 1], [1, 1]]\<rparr>,
                  chunks = [''a'', ''b'', ''c'']\<rparr> [1, 1] 2) =
       Inr ([[0, 0]], [[1, 2]])"
proof -
  let ?s = "\<lparr>dimension = 2, index = \<lparr>faiss_d = 2, xb = [[0, 0], [1, 1], [1, 1]]\<rparr>,
             chunks = [''a'', ''b'', ''c'']\<rparr>"
  have h1: "length [1, 1 :: real] = faiss_d (index ?s)" by simp
  have h2: "0 < faiss_d (index ?s)" by simp
  have h3: "(0 :: int) < 2" by simp
  have h4: "(2 :: int) < 2 ^ 61" by simp
  have h5: "2 \<le> int (max_k exact_lib)" by (simp add: exact_lib_def)
  have h6: "aligned ?s" by (simp add: aligned_def ntotal_def)
  have c: "usable_count exact_lib [[0, 0], [1, 1], [1, 1]] [1, 1] = 3"
    by (simp add: usable_count_def usable_def exact_lib_def exact_L2sqr_def FLT_MAX_def)
  from search_nearest_first [OF h1 h2 h3 h4 h5 h6]
  obtain D I where res: "search exact_lib ?s [1, 1] 2 = (Inr ([D], [I]), ?s)"
    and ord: "\<forall>i j. i < j \<and> j < min (nat 2) (usable_count exact_lib (xb (index ?s)) [1, 1]) \<longrightarrow>
          D ! i < D ! j \<or> (D ! i = D ! j \<and> I ! i < I ! j)"
    by blast
  have "(0 :: nat) < 1 \<and> 1 < min (nat 2) (usable_count exact_lib (xb (index ?s)) [1, 1])"
    by (simp add: c)
  with ord have "D ! 0 < D ! 1 \<or> (D ! 0 = D ! 1 \<and> I ! 0 < I ! 1)" by blast
  with res have ex: "\<exists>D I. search exact_lib ?s [1, 1] 2 = (Inr ([D], [I]), ?s)
        \<and> (D ! 0 < D ! 1 \<or> (D ! 0 = D ! 1 \<and> I ! 0 < I ! 1))"
    by blast
  have ev: "fst (search exact_lib ?s [1, 1] 2) = Inr ([[0, 0]], [[1, 2]])"
    by (simp add: search_def reshape_row_def faiss_search_def knn_def scored_def exact_lib_def
        exact_L2sqr_def FLT_MAX_def Let_def numeral_2_eq_2 numeral_3_eq_3)
  from h1 h2 h3 h4 h5 h6 ex ev show ?thesis by blast
qed

text \<open>
  C4 as stated fails: on an index of two entries, \<open>k = 3\<close> gives a third result with the
  label \<open>-1\<close>, which is the position of no chunk, and the distance \<open>FLT_MAX\<close>, which is
  the distance of no stored vector; \<open>query\<close> reads \<open>chunks[-1]\<close> for it and returns the
  last chunk a second time.
\<close>

theorem search_filler_counterexample:
  "aligned \<lparr>dimension = 2, index = \<lparr>faiss_d = 2, xb = [[0, 0], [1, 1]]\<rparr>, chunks = [''a'', ''b'']\<rparr>
   \<and> fst (search exact_lib \<lparr>dimension = 2, index = \<lparr>faiss_d = 2, xb = [[0, 0], [1, 1]]\<rparr>,
                  chunks = [''a'', ''b'']\<rparr> [1, 1] 3) =
       Inr ([[0, 2, FLT_MAX]], [[1, 0, - 1]])
   \<and> fst (query exact_lib
            \<lparr>rag_index = \<lparr>dimension = 2, index = \<lparr>faiss_d = 2, xb = [[0, 0], [1, 1]]\<rparr>,
                              chunks = [''a'', ''b'']\<rparr>,
                  co = (\<lambda>p. Inr ''ok''),
                  doc_processor = \<lparr>encoder = (\<lambda>ts. Array2 2 [[1, 1]])\<rparr>,
                  index_file = ''data/faiss.index'', chunks_file = ''data/chunks.json''\<rparr>
            ''q'' 3) =
       Inr \<lparr>answer = ''ok'', contexts = [''b'', ''a'', ''b''], distances = [0, 2, FLT_MAX]\<rparr>"
  by (simp add: aligned_def ntotal_def query_def first_row_def search_def reshape_row_def
      faiss_search_def knn_def scored_def exact_lib_def exact_L2sqr_def FLT_MAX_def
      py_getitem_def str_strip_def isspace_def Let_def numeral_2_eq_2 numeral_3_eq_3)

section \<open>save and load\<close>

text \<open>
  C5. \<open>save\<close> to two different paths succeeds and leaves the index as it was; \<open>load\<close>
  from the same paths into a new index then succeeds and gives an index with the same
  vectors and the same chunks, in the same order.
\<close>

theorem save_load_roundtrip:
  assumes "p \<noteq> q"
  shows "fst (save s p q files) = Inr ()
    \<and> fst (snd (save s p q files)) = s
    \<and> load (FAISSIndex_init n) p q (snd (snd (save s p q files))) =
        (Inr (), \<lparr>dimension = n, index = index s, chunks = chunks s\<rparr>)"
  using assms
  by (simp add: save_def load_def faiss_write_index_def json_dump_file_def
      faiss_read_index_def json_load_file_def FAISSIndex_init_def Let_def)

text \<open>
  An index of two entries, saved to the two paths of \<open>RAGModel\<close> and loaded again.
\<close>

theorem save_load_roundtrip_witness:
  "''data/faiss.index'' \<noteq> ''data/chunks.json''
   \<and> load (FAISSIndex_init 384) ''data/faiss.index'' ''data/chunks.json''
        (snd (snd (save \<lparr>dimension = 2, index = \<lparr>faiss_d = 2, xb = [[1, 2], [3, 4]]\<rparr>,
                         chunks = [''a'', ''b'']\<rparr>
                   ''data/faiss.index'' ''data/chunks.json'' Map.empty))) =
       (Inr (), \<lparr>dimension = 384, index = \<lparr>faiss_d = 2, xb = [[1, 2], [3, 4]]\<rparr>,
                 chunks = [''a'', ''b'']\<rparr>)"
  using save_load_roundtrip [of "''data/faiss.index''" "''data/chunks.json''"
      "\<lparr>dimension = 2, index = \<lparr>faiss_d = 2, xb = [[1, 2], [3, 4]]\<rparr>, chunks = [''a'', ''b'']\<rparr>"
      Map.empty 384]
  by simp

text \<open>
  C6 (as amended). \<open>load\<close> fails when either file is missing: a missing index file
  makes \<open>faiss.read_index\<close> raise (the file could not be opened) and leaves the index
  untouched; a missing chunks file beside an index file raises \<open>FileNotFoundError\<close>
  after the vector store has been replaced. It fails too when the index path holds no
  index, and when the chunks path holds no JSON text. When both files are there and hold
  an index and a chunk list, it succeeds and installs both as they are, whatever their
  lengths.
\<close>

theorem load_outcomes:
  "(files p = None \<longrightarrow> load s p q files = (Inl (RuntimeError CouldNotOpen), s))
   \<and> (files p = Some (JsonList cs') \<longrightarrow> load s p q files = (Inl (RuntimeError NotAnIndex), s))
   \<and> (files p = Some (IndexBlob ix) \<and> files q = None \<longrightarrow>
        load s p q files = (Inl FileNotFoundError, s\<lparr>index := ix\<rparr>))
   \<and> (files p = Some (IndexBlob ix) \<and> files q = Some (IndexBlob ix') \<longrightarrow>
        load s p q files = (Inl DecodeError, s\<lparr>index := ix\<rparr>))
   \<and> (files p = Some (IndexBlob ix) \<and> files q = Some (JsonList cs) \<longrightarrow>
        load s p q files = (Inr (), s\<lparr>index := ix, chunks := cs\<rparr>))"
  by (simp add: load_def faiss_read_index_def json_load_file_def)

text \<open>
  The five outcomes on concrete files.
\<close>

theorem load_outcomes_witness:
  "Map.empty ''i'' = (None :: file_content option)
   \<and> load (FAISSIndex_init 2) ''i'' ''c'' Map.empty =
       (Inl (RuntimeError CouldNotOpen), FAISSIndex_init 2)
   \<and> load (FAISSIndex_init 2) ''i'' ''c'' [''i'' \<mapsto> JsonList [''x'']] =
       (Inl (RuntimeError NotAnIndex), FAISSIndex_init 2)
   \<and> load (FAISSIndex_init 2) ''i'' ''c'' [''i'' \<mapsto> IndexBlob \<lparr>faiss_d = 2, xb = [[1, 2]]\<rparr>] =
       (Inl FileNotFoundError,
        \<lparr>dimension = 2, index = \<lparr>faiss_d = 2, xb = [[1, 2]]\<rparr>, chunks = []\<rparr>)
   \<and> load (FAISSIndex_init 2) ''i'' ''c''
        [''i'' \<mapsto> IndexBlob \<lparr>faiss_d = 2, xb = [[1, 2]]\<rparr>,
         ''c'' \<mapsto> IndexBlob \<lparr>faiss_d = 2, xb = []\<rparr>] =
       (Inl DecodeError,
        \<lparr>dimension = 2, index = \<lparr>faiss_d = 2, xb = [[1, 2]]\<rparr>, chunks = []\<rparr>)
   \<and> load (FAISSIndex_init 2) ''i'' ''c''
        [''i'' \<mapsto> IndexBlob \<lparr>faiss_d = 2, xb = [[1, 2]]\<rparr>, ''c'' \<mapsto> JsonList [''x'']] =
       (Inr (), \<lparr>dimension = 2, index = \<lparr>faiss_d = 2, xb = [[1, 2]]\<rparr>, chunks = [''x'']\<rparr>)"
  using load_outcomes [where files = Map.empty and p = "''i''" and s = "FAISSIndex_init 2"
      and q = "''c''"]
    load_outcomes [where files = "[''i'' \<mapsto> JsonList [''x'']]" and p = "''i''"
      and s = "FAISSIndex_init 2" and q = "''c''" and cs' = "[''x'']"]
    load_outcomes [where files = "[''i'' \<mapsto> IndexBlob \<lparr>faiss_d = 2, xb = [[1, 2]]\<rparr>]"
      and p = "''i''" and s = "FAISSIndex_init 2" and q = "''c''"
      and ix = "\<lparr>faiss_d = 2, xb = [[1, 2]]\<rparr>"]
    load_outcomes [where files = "[''i'' \<mapsto> IndexBlob \<lparr>faiss_d = 2, xb = [[1, 2]]\<rparr>,
         ''c'' \<mapsto> IndexBlob \<lparr>faiss_d = 2, xb = []\<rparr>]"
      and p = "''i''" and s = "FAISSIndex_init 2" and q = "''c''"
      and ix = "\<lparr>faiss_d = 2, xb = [[1, 2]]\<rparr>" and ix' = "\<lparr>faiss_d = 2, xb = []\<rparr>"]
    load_outcomes [where files = "[''i'' \<mapsto> IndexBlob \<lparr>faiss_d = 2, xb = [[1, 2]]\<rparr>,
         ''c'' \<mapsto> JsonList [''x'']]"
      and p = "''i''" and s = "FAISSIndex_init 2" and q = "''c''"
      and ix = "\<lparr>faiss_d = 2, xb = [[1, 2]]\<rparr>" and cs = "[''x'']"]
  by (simp add: FAISSIndex_init_def IndexFlatL2_init_def)

text \<open>
  C6 as stated fails: an index file of one vector beside a chunks file of two chunks
  loads without error.
\<close>

theorem load_count_mismatch_counterexample:
  "ntotal \<lparr>faiss_d = 2, xb = [[1, 2]]\<rparr> \<noteq> length [''x'', ''y'']
   \<and> load (FAISSIndex_init 2) ''i'' ''c''
        [''i'' \<mapsto> IndexBlob \<lparr>faiss_d = 2, xb = [[1, 2]]\<rparr>, ''c'' \<mapsto> JsonList [''x'', ''y'']] =
       (Inr (), \<lparr>dimension = 2, index = \<lparr>faiss_d = 2, xb = [[1, 2]]\<rparr>, chunks = [''x'', ''y'']\<rparr>)"
  by (simp add: load_def faiss_read_index_def json_load_file_def FAISSIndex_init_def ntotal_def)

section \<open>query on an empty index\<close>

lemma get_contexts_empty: "get_contexts [] (replicate (Suc m) (- 1)) = Inl IndexError"
  by (simp add: py_getitem_def)

lemma knn_empty: "knn lib [] q k = replicate k (FLT_MAX, - 1)"
  by (simp add: knn_def scored_def)

text \<open>
  C8. \<open>query\<close> on the empty index of a new \<open>RAGModel\<close> (no persisted files), with an
  encoder that returns one vector of dimension 384 per text: for a \<open>top_k \<ge> 1\<close> that
  numpy and the machine accept the search returns \<open>top_k\<close> labels \<open>-1\<close>, and
  \<open>self.index.chunks[-1]\<close> on the empty chunk list raises \<open>IndexError\<close> before any prompt
  is built; for every other \<open>top_k\<close> the search itself raises. The call never succeeds.
\<close>

theorem query_empty_index_raises:
  "fst (query lib
          (snd (RAGModel_init client (\<lambda>ts. Array2 384 (map (\<lambda>t. replicate 384 x) ts)) Map.empty))
          question top_k) =
     Inl (if top_k \<le> 0 then AssertionError
          else if 2 ^ 61 \<le> top_k then ValueError
          else if int (max_k lib) < top_k then MemoryError
          else IndexError)"
proof (cases "0 < top_k \<and> top_k < 2 ^ 61 \<and> top_k \<le> int (max_k lib)")
  case False
  then show ?thesis
    by (auto simp add: query_def RAGModel_init_def path_exists_def first_row_def search_def
        reshape_row_def faiss_search_def FAISSIndex_init_def IndexFlatL2_init_def Let_def)
next
  case True
  then obtain m where m: "nat top_k = Suc m" by (cases "nat top_k") auto
  from True show ?thesis
    by (simp add: query_def RAGModel_init_def path_exists_def first_row_def search_def
        reshape_row_def faiss_search_def FAISSIndex_init_def IndexFlatL2_init_def Let_def
        knn_empty m get_contexts_empty py_getitem_def del: replicate.simps)
qed

section \<open>clear\_index\<close>

text \<open>
  C9. \<open>clear_index\<close> succeeds, replaces the index by an empty one and removes both
  files; it succeeds too when the files are not there, and called again on its own
  result it succeeds and changes nothing, although \<open>os.remove\<close> of either path would
  raise there: the \<open>os.path.exists\<close> guards keep it from being called. \<open>load\<close> from the
  two paths then fails with the error \<open>faiss.read_index\<close> raises for a file it cannot
  open, and leaves the index as it was. \<open>index_document\<close> right after the clear, with an
  encoder that returns one vector of dimension 384 per chunk, succeeds, returns the
  number of chunks of the document and leaves an index that holds exactly these chunks
  and their vectors.
\<close>

theorem clear_index_lifecycle:
  "clear_index m files =
     (Inr (), m\<lparr>rag_index := FAISSIndex_init 384\<rparr>,
      (files(index_file m := None))(chunks_file m := None))
   \<and> (files (index_file m) = None \<and> files (chunks_file m) = None \<longrightarrow>
        clear_index m files = (Inr (), m\<lparr>rag_index := FAISSIndex_init 384\<rparr>, files))
   \<and> clear_index (fst (snd (clear_index m files))) (snd (snd (clear_index m files))) =
       clear_index m files
   \<and> os_remove (index_file m) (snd (snd (clear_index m files))) = Inl FileNotFoundError
   \<and> os_remove (chunks_file m) (snd (snd (clear_index m files))) = Inl FileNotFoundError
   \<and> load ix (index_file m) (chunks_file m) (snd (snd (clear_index m files))) =
       (Inl (RuntimeError CouldNotOpen), ix)
   \<and> (create_embeddings (doc_processor m) (process_pdf pages) = Array2 384 rows \<and> length rows = length (process_pdf pages) \<longrightarrow>
        fst (index_document (fst (snd (clear_index m files))) pages (snd (snd (clear_index m files)))) =
          Inr (int (length (process_pdf pages)))
        \<and> chunks (rag_index (fst (snd (index_document (fst (snd (clear_index m files))) pages
              (snd (snd (clear_index m files))))))) = process_pdf pages
        \<and> xb (index (rag_index (fst (snd (index_document (fst (snd (clear_index m files))) pages
              (snd (snd (clear_index m files)))))))) = rows
        \<and> ntotal (index (rag_index (fst (snd (index_document (fst (snd (clear_index m files))) pages
              (snd (snd (clear_index m files)))))))) = length (process_pdf pages))"
proof -
  let ?files' = "(files(index_file m := None))(chunks_file m := None)"
  have c: "clear_index m files = (Inr (), m\<lparr>rag_index := FAISSIndex_init 384\<rparr>, ?files')"
  proof (cases "files (index_file m)")
    case None
    then show ?thesis
      by (cases "files (chunks_file m)")
        (auto simp add: clear_index_def path_exists_def os_remove_def Let_def fun_upd_idem)
  next
    case (Some f)
    then show ?thesis
      by (cases "files (chunks_file m)"; cases "chunks_file m = index_file m")
        (auto simp add: clear_index_def path_exists_def os_remove_def Let_def fun_upd_idem)
  qed
  have a: "clear_index m files = (Inr (), m\<lparr>rag_index := FAISSIndex_init 384\<rparr>, files)"
    if "files (index_file m) = None \<and> files (chunks_file m) = None"
    using that by (simp add: clear_index_def path_exists_def Let_def)
  have c2: "clear_index (m\<lparr>rag_index := FAISSIndex_init 384\<rparr>) ?files' = clear_index m files"
    by (simp add: c) (simp add: clear_index_def path_exists_def Let_def)
  have r: "os_remove (index_file m) ?files' = Inl FileNotFoundError"
    "os_remove (chunks_file m) ?files' = Inl FileNotFoundError"
    by (simp_all add: os_remove_def)
  have l: "load ix (index_file m) (chunks_file m) ?files' = (Inl (RuntimeError CouldNotOpen), ix)"
    by (simp add: load_def faiss_read_index_def)
  have d: "index_document (m\<lparr>rag_index := FAISSIndex_init 384\<rparr>) pages ?files' =
      (Inr (int (length (process_pdf pages))),
       m\<lparr>rag_index := \<lparr>dimension = 384, index = \<lparr>faiss_d = 384, xb = rows\<rparr>,
                        chunks = process_pdf pages\<rparr>\<rparr>,
       ?files'
         (index_file m \<mapsto> IndexBlob \<lparr>faiss_d = 384, xb = rows\<rparr>,
          chunks_file m \<mapsto> JsonList (process_pdf pages)))"
    if "create_embeddings (doc_processor m) (process_pdf pages) = Array2 384 rows"
    using that
    by (simp add: index_document_def add_vectors_def faiss_add_def save_def Let_def
        FAISSIndex_init_def IndexFlatL2_init_def faiss_write_index_def json_dump_file_def)
  show ?thesis
    using a by (simp add: c c2 r l d ntotal_def)
qed

lemma paris_chunks:
  "process_pdf [''Paris is the capital of France.'' @ [CHR 0x0A, CHR 0x0A] @
                ''It is known for the Eiffel Tower.''] =
     [''Paris is the capital of France.'', ''It is known for the Eiffel Tower.'']"
  by code_simp

text \<open>
  A model that holds one old chunk, in memory and on disk, is cleared and then indexes a
  document of two chunks; and a model with no files is cleared.
\<close>

theorem clear_index_lifecycle_witness:
  "create_embeddings (doc_processor
           \<lparr>rag_index = \<lparr>dimension = 384, index = \<lparr>faiss_d = 384, xb = [replicate 384 1]\<rparr>,
                           chunks = [''old'']\<rparr>,
             co = (\<lambda>p. Inr p),
             doc_processor = \<lparr>encoder = (\<lambda>ts. Array2 384 (map (\<lambda>t. replicate 384 0) ts))\<rparr>,
             index_file = ''data/faiss.index'', chunks_file = ''data/chunks.json''\<rparr>)
       (process_pdf [''Paris is the capital of France.'' @ [CHR 0x0A, CHR 0x0A] @
                     ''It is known for the Eiffel Tower.'']) =
     Array2 384 [replicate 384 0, replicate 384 0]
   \<and> length [replicate 384 (0 :: real), replicate 384 0] =
       length (process_pdf [''Paris is the capital of France.'' @ [CHR 0x0A, CHR 0x0A] @
                            ''It is known for the Eiffel Tower.''])
   \<and> chunks (rag_index (fst (snd (index_document
         (fst (snd (clear_index
            \<lparr>rag_index = \<lparr>dimension = 384, index = \<lparr>faiss_d = 384, xb = [replicate 384 1]\<rparr>,
                            chunks = [''old'']\<rparr>,
              co = (\<lambda>p. Inr p),
              doc_processor = \<lparr>encoder = (\<lambda>ts. Array2 384 (map (\<lambda>t. replicate 384 0) ts))\<rparr>,
              index_file = ''data/faiss.index'', chunks_file = ''data/chunks.json''\<rparr>
            [''data/faiss.index'' \<mapsto> IndexBlob \<lparr>faiss_d = 384, xb = [replicate 384 1]\<rparr>,
             ''data/chunks.json'' \<mapsto> JsonList [''old'']])))
         [''Paris is the capital of France.'' @ [CHR 0x0A, CHR 0x0A] @
          ''It is known for the Eiffel Tower.'']
         (snd (snd (clear_index
            \<lparr>rag_index = \<lparr>dimension = 384, index = \<lparr>faiss_d = 384, xb = [replicate 384 1]\<rparr>,
                            chunks = [''old'']\<rparr>,
              co = (\<lambda>p. Inr p),
              doc_processor = \<lparr>encoder = (\<lambda>ts. Array2 384 (map (\<lambda>t. replicate 384 0) ts))\<rparr>,
              index_file = ''data/faiss.index'', chunks_file = ''data/chunks.json''\<rparr>
            [''data/faiss.index'' \<mapsto> IndexBlob \<lparr>faiss_d = 384, xb = [replicate 384 1]\<rparr>,
             ''data/chunks.json'' \<mapsto> JsonList [''old'']]))))))) =
       [''Paris is the capital of France.'', ''It is known for the Eiffel Tower.'']
   \<and> (Map.empty :: fs) ''data/faiss.index'' = None
   \<and> (Map.empty :: fs) ''data/chunks.json'' = None
   \<and> fst (clear_index
            \<lparr>rag_index = \<lparr>dimension = 384, index = \<lparr>faiss_d = 384, xb = [replicate 384 1]\<rparr>,
                            chunks = [''old'']\<rparr>,
              co = (\<lambda>p. Inr p),
              doc_processor = \<lparr>encoder = (\<lambda>ts. Array2 384 (map (\<lambda>t. replicate 384 0) ts))\<rparr>,
              index_file = ''data/faiss.index'', chunks_file = ''data/chunks.json''\<rparr>
            Map.empty) = Inr ()"
proof -
  let ?m = "\<lparr>rag_index = \<lparr>dimension = 384, index = \<lparr>faiss_d = 384, xb = [replicate 384 1]\<rparr>,
                           chunks = [''old'']\<rparr>,
             co = (\<lambda>p. Inr p),
             doc_processor = \<lparr>encoder = (\<lambda>ts. Array2 384 (map (\<lambda>t. replicate 384 0) ts))\<rparr>,
             index_file = ''data/faiss.index'', chunks_file = ''data/chunks.json''\<rparr>"
  let ?files = "[''data/faiss.index'' \<mapsto> IndexBlob \<lparr>faiss_d = 384, xb = [replicate 384 1]\<rparr>,
             ''data/chunks.json'' \<mapsto> JsonList [''old'']]"
  let ?pages = "[''Paris is the capital of France.'' @ [CHR 0x0A, CHR 0x0A] @
                 ''It is known for the Eiffel Tower.'']"
  let ?rows = "[replicate 384 (0 :: real), replicate 384 0]"
  have h: "create_embeddings (doc_processor ?m) (process_pdf ?pages) = Array2 384 ?rows
      \<and> length ?rows = length (process_pdf ?pages)"
    by (simp only: paris_chunks) (simp add: create_embeddings_def)
  from clear_index_lifecycle [where m = ?m and files = ?files and pages = ?pages and rows = ?rows,
      THEN conjunct2, THEN conjunct2, THEN conjunct2, THEN conjunct2, THEN conjunct2,
      THEN conjunct2, rule_format, OF h]
  have "chunks (rag_index (fst (snd (index_document (fst (snd (clear_index ?m ?files))) ?pages
      (snd (snd (clear_index ?m ?files))))))) = process_pdf ?pages"
    by blast
  with h have first: "create_embeddings (doc_processor ?m) (process_pdf ?pages) = Array2 384 ?rows
      \<and> length ?rows = length (process_pdf ?pages)
      \<and> chunks (rag_index (fst (snd (index_document (fst (snd (clear_index ?m ?files))) ?pages
          (snd (snd (clear_index ?m ?files))))))) =
        [''Paris is the capital of France.'', ''It is known for the Eiffel Tower.'']"
    by (simp only: paris_chunks) 
  have e: "(Map.empty :: fs) (index_file ?m) = None \<and> (Map.empty :: fs) (chunks_file ?m) = None"
    by simp
  from clear_index_lifecycle [where m = ?m and files = Map.empty,
      THEN conjunct2, THEN conjunct1, rule_format, OF e]
  have "fst (clear_index ?m Map.empty) = Inr ()" by simp
  with first show ?thesis by simp
qed

section \<open>search and query change nothing\<close>

text \<open>
  C10. \<open>search\<close> leaves the index as it was, \<open>query\<close> leaves the whole \<open>RAGModel\<close>
  (its index included) as it was, whether they return or raise, and \<open>save\<close> changes
  files only.
\<close>

theorem search_query_frame:
  "snd (search lib s q k) = s
   \<and> snd (query lib m question top_k) = m
   \<and> fst (snd (save s p1 p2 files)) = s"
  by (simp add: search_def query_def save_def Let_def split: sum.splits prod.splits option.splits)

end
